theory Spec2Isabelle
  imports Complex_Main "HOL-Library.Sublist" "HOL-Library.AList"
begin

text \<open>
  The character component of the kiosk: bone-name canonicalization, the fuzzy bone matcher,
  the bone map, the animation retargeter, the model scale, the animation state and the
  per-frame movement on the ramp. The component exists in two variants: the legacy
  single-format one, which loads FBX only, and the dual-format one, which takes the model
  format (GLB or FBX). Where the two differ, the legacy definitions carry the suffix
  \<open>_legacy\<close>; the state effect, the scale guard and the frame loop are the same in
  both.
\<close>

section \<open>JavaScript string primitives used by the retargeter\<close>

text \<open>
  Strings are lists of characters. The source's \<^verbatim>\<open>toLowerCase\<close> is modelled on the
  ASCII letters (code units 65 to 90 are moved up by 32, every other code unit is kept), which
  is what JavaScript does on ASCII bone names.
\<close>

definition toLowerCase_char :: "char \<Rightarrow> char" where
  "toLowerCase_char c =
     (let n = (of_char c :: nat) in if 65 \<le> n \<and> n \<le> 90 then char_of (n + 32) else c)"

definition toLowerCase :: "string \<Rightarrow> string" where
  "toLowerCase s = map toLowerCase_char s"

text \<open>\<^verbatim>\<open>s.startsWith(p)\<close>, \<^verbatim>\<open>s.endsWith(p)\<close> and \<^verbatim>\<open>s.includes(p)\<close>.\<close>

definition startsWith :: "string \<Rightarrow> string \<Rightarrow> bool" where
  "startsWith s p = (take (length p) s = p)"

definition endsWith :: "string \<Rightarrow> string \<Rightarrow> bool" where
  "endsWith s p = startsWith (rev s) (rev p)"

fun includes_str :: "string \<Rightarrow> string \<Rightarrow> bool" where
  "includes_str [] p = (p = [])"
| "includes_str (c # cs) p = (startsWith (c # cs) p \<or> includes_str cs p)"

text \<open>
  \<^verbatim>\<open>temp.replace(/mixamorig:?_?/g, '')\<close>: a single left-to-right scan; at each match
  the literal, then a colon if there is one, then an underscore if there is one, are removed,
  and the scan goes on after the match.
\<close>

definition dropOptional :: "char \<Rightarrow> string \<Rightarrow> string" where
  "dropOptional c s = (case s of [] \<Rightarrow> [] | d # ds \<Rightarrow> if d = c then ds else d # ds)"

function removeMixamorig :: "string \<Rightarrow> string" where
  "removeMixamorig [] = []"
| "removeMixamorig (c # cs) =
     (if startsWith (c # cs) ''mixamorig''
      then removeMixamorig (dropOptional (CHR ''_'') (dropOptional (CHR '':'') (drop 9 (c # cs))))
      else c # removeMixamorig cs)"
  by pat_completeness auto

termination removeMixamorig
proof (relation "measure length")
  show "wf (measure length)" by simp
next
  fix c :: char and cs :: string
  have shorter: "length (dropOptional d s) \<le> length s" for d s
    by (cases s) (simp_all add: dropOptional_def)
  have "length (dropOptional (CHR ''_'') (dropOptional (CHR '':'') (drop 9 (c # cs))))
          \<le> length (drop 9 (c # cs))"
    using shorter le_trans by blast
  then show "(dropOptional (CHR ''_'') (dropOptional (CHR '':'') (drop 9 (c # cs))), c # cs)
          \<in> measure length"
    by simp
next
  fix c :: char and cs :: string
  show "(cs, c # cs) \<in> measure length" by simp
qed

text \<open>\<^verbatim>\<open>temp.split(/[:|/.]/)\<close>: the pieces between the separator characters, in order.\<close>

definition isSeparator :: "char \<Rightarrow> bool" where
  "isSeparator c = (c = CHR '':'' \<or> c = CHR ''|'' \<or> c = CHR ''/'' \<or> c = CHR ''.'')"

fun split_sep :: "string \<Rightarrow> string list" where
  "split_sep [] = [[]]"
| "split_sep (c # cs) =
     (if isSeparator c then [] # split_sep cs
      else (case split_sep cs of [] \<Rightarrow> [[c]] | p # ps \<Rightarrow> (c # p) # ps))"

subsection \<open>normalizeBoneName\<close>

definition normalizeBoneName :: "string \<Rightarrow> string" where
  "normalizeBoneName name =
     (let temp = toLowerCase name;
          temp = removeMixamorig temp;
          parts = split_sep temp
      in last parts)"


text \<open>
  \<^verbatim>\<open>s.lastIndexOf(c)\<close> (\<open>-1\<close> when \<open>c\<close> does not occur), and \<^verbatim>\<open>s.substring(a, b)\<close>,
  \<^verbatim>\<open>s.substring(a)\<close>, which clamp their arguments to the string and swap them when
  \<open>a > b\<close>.
\<close>

fun lastIndexOf :: "string \<Rightarrow> char \<Rightarrow> int" where
  "lastIndexOf [] c = - 1"
| "lastIndexOf (d # ds) c =
     (let r = lastIndexOf ds c in if 0 \<le> r then r + 1 else if d = c then 0 else - 1)"

definition clampIndex :: "string \<Rightarrow> int \<Rightarrow> nat" where
  "clampIndex s i = (if i < 0 then 0 else min (nat i) (length s))"

definition substring :: "string \<Rightarrow> int \<Rightarrow> int \<Rightarrow> string" where
  "substring s a b =
     (let lo = min (clampIndex s a) (clampIndex s b);
          hi = max (clampIndex s a) (clampIndex s b)
      in take (hi - lo) (drop lo s))"

definition substringFrom :: "string \<Rightarrow> int \<Rightarrow> string" where
  "substringFrom s a = drop (clampIndex s a) s"

text \<open>\<^verbatim>\<open>s.replace(/[^a-zA-Z0-9]/g, '')\<close>.\<close>

definition isAlphanumeric :: "char \<Rightarrow> bool" where
  "isAlphanumeric c =
     (let n = (of_char c :: nat)
      in (97 \<le> n \<and> n \<le> 122) \<or> (65 \<le> n \<and> n \<le> 90) \<or> (48 \<le> n \<and> n \<le> 57))"

definition stripNonAlphanumeric :: "string \<Rightarrow> string" where
  "stripNonAlphanumeric s = filter isAlphanumeric s"

text \<open>
  The legacy variant's \<^verbatim>\<open>name.replace(/^.*:/, '')\<close>: the dot does not match a line
  terminator, so the match is the first line up to its last colon.
\<close>

definition isLineTerminator :: "char \<Rightarrow> bool" where
  "isLineTerminator c = (c = CHR 0x0A \<or> c = CHR 0x0D)"

definition stripNamespace :: "string \<Rightarrow> string" where
  "stripNamespace s =
     (let i = lastIndexOf (takeWhile (\<lambda>c. \<not> isLineTerminator c) s) (CHR '':'')
      in if i < 0 then s else drop (nat i + 1) s)"

definition simpleName_legacy :: "string \<Rightarrow> string" where
  "simpleName_legacy name = toLowerCase (stripNamespace name)"

section \<open>The bone map\<close>

text \<open>
  A JavaScript \<^verbatim>\<open>Map<string, string>\<close> iterates in insertion order, and \<^verbatim>\<open>set\<close> on a key
  that is present overwrites the value in place: an association list with \<^const>\<open>AList.update\<close>.
  A value that may be \<^verbatim>\<open>undefined\<close> or \<^verbatim>\<open>null\<close> is an option; the source tests such
  values for truthiness, and the empty string is falsy.
\<close>

type_synonym boneMap = "(string \<times> string) list"

definition Map_get :: "boneMap \<Rightarrow> string \<Rightarrow> string option" where
  "Map_get m k = map_of m k"

definition Map_set :: "boneMap \<Rightarrow> string \<Rightarrow> string \<Rightarrow> boneMap" where
  "Map_set m k v = AList.update k v m"

fun truthy :: "string option \<Rightarrow> bool" where
  "truthy None = False"
| "truthy (Some s) = (s \<noteq> [])"

text \<open>The scene graph, and \<^verbatim>\<open>Object3D.traverse\<close>, which visits a node before its children.\<close>

datatype obj3d = Object3D (obj_type: string) (obj_name: string) (obj_children: "obj3d list")

fun traverse :: "obj3d \<Rightarrow> obj3d list" where
  "traverse (Object3D t n cs) = Object3D t n cs # concat (map traverse cs)"

definition modelBones :: "obj3d \<Rightarrow> boneMap" where
  "modelBones model =
     foldl (\<lambda>m obj. if obj_type obj = ''Bone''
                     then Map_set m (normalizeBoneName (obj_name obj)) (obj_name obj) else m)
       [] (traverse model)"

definition modelBones_legacy :: "obj3d \<Rightarrow> boneMap" where
  "modelBones_legacy model =
     foldl (\<lambda>m obj. if obj_type obj = ''Bone''
                     then Map_set m (simpleName_legacy (obj_name obj)) (obj_name obj) else m)
       [] (traverse model)"

subsection \<open>findBoneFuzzy\<close>

fun findBoneFuzzy_loop :: "string \<Rightarrow> boneMap \<Rightarrow> string option" where
  "findBoneFuzzy_loop cleanSearch [] = None"
| "findBoneFuzzy_loop cleanSearch ((key, val) # entries) =
     (let cleanKey = stripNonAlphanumeric key
      in if cleanKey = cleanSearch then Some val
         else if endsWith cleanKey cleanSearch \<or> endsWith cleanSearch cleanKey then Some val
         else findBoneFuzzy_loop cleanSearch entries)"

definition findBoneFuzzy :: "boneMap \<Rightarrow> string \<Rightarrow> string option" where
  "findBoneFuzzy boneMap searchName =
     (let direct = Map_get boneMap searchName
      in if truthy direct then direct
         else findBoneFuzzy_loop (stripNonAlphanumeric searchName) boneMap)"


section \<open>The animation retargeter\<close>

text \<open>
  A keyframe track is its address \<^verbatim>\<open><bone>.<property>\<close>, its times and its values; a clip
  is a name and its tracks. \<^verbatim>\<open>processClip\<close> works on a clone of the clip it is given, so
  the renaming of a track is the construction of a new one.
\<close>

record track =
  track_name :: string
  track_times :: "real list"
  track_values :: "real list"

record clip =
  clip_name :: string
  clip_tracks :: "track list"

datatype ModelFormat = GLB | FBX

definition trackBoneName :: "track \<Rightarrow> string" where
  "trackBoneName t = substring (track_name t) 0 (lastIndexOf (track_name t) (CHR ''.''))"

definition trackProperty :: "track \<Rightarrow> string" where
  "trackProperty t = substringFrom (track_name t) (lastIndexOf (track_name t) (CHR ''.'') + 1)"

definition address :: "string \<Rightarrow> string \<Rightarrow> string" where
  "address bone property = bone @ ''.'' @ property"

subsection \<open>The dual-format variant\<close>

definition rootBoneKeywords :: "string list" where
  "rootBoneKeywords = [''hips'', ''root'', ''pelvis'', ''torso'', ''spine'', ''waist'']"

definition isRootBone :: "ModelFormat \<Rightarrow> string \<Rightarrow> bool" where
  "isRootBone baseFormat simpleBoneName =
     (list_ex (\<lambda>k. includes_str simpleBoneName k) rootBoneKeywords \<or>
      (baseFormat = GLB \<and> (simpleBoneName = ''root'' \<or> simpleBoneName = ''hips'')))"

text \<open>\<^verbatim>\<open>a || b\<close> on two possibly-null strings.\<close>

definition orElse :: "string option \<Rightarrow> string option \<Rightarrow> string option" where
  "orElse a b = (if truthy a then a else b)"

text \<open>
  The body of the loop over the tracks: \<open>None\<close> is a \<^verbatim>\<open>continue\<close> that pushes nothing,
  \<open>Some t\<close> is \<^verbatim>\<open>newTracks.push(t)\<close>.
\<close>

definition processTrack :: "ModelFormat \<Rightarrow> boneMap \<Rightarrow> bool \<Rightarrow> track \<Rightarrow> track option" where
  "processTrack baseFormat bones stripPosition t =
     (let boneName = trackBoneName t;
          property = trackProperty t;
          simpleBoneName = normalizeBoneName boneName;
          targetBoneName = findBoneFuzzy bones simpleBoneName;
          isRoot = isRootBone baseFormat simpleBoneName
      in if truthy targetBoneName then
           (if stripPosition \<and> isRoot \<and> property = ''position'' then None
            else Some (t\<lparr>track_name := address (the targetBoneName) property\<rparr>))
         else if baseFormat = GLB then
           (if property = ''position'' \<and>
               (includes_str simpleBoneName ''hips'' \<or> includes_str simpleBoneName ''root'')
            then
              (let rootBone = orElse (findBoneFuzzy bones ''hips'') (findBoneFuzzy bones ''root'')
               in if truthy rootBone then
                    (if stripPosition then None
                     else Some (t\<lparr>track_name := address (the rootBone) property\<rparr>))
                  else Some t)
            else Some t)
         else Some t)"

fun processTracks :: "ModelFormat \<Rightarrow> boneMap \<Rightarrow> bool \<Rightarrow> track list \<Rightarrow> track list" where
  "processTracks baseFormat bones stripPosition [] = []"
| "processTracks baseFormat bones stripPosition (t # ts) =
     (case processTrack baseFormat bones stripPosition t of
        None \<Rightarrow> processTracks baseFormat bones stripPosition ts
      | Some t' \<Rightarrow> t' # processTracks baseFormat bones stripPosition ts)"

definition processClip :: "ModelFormat \<Rightarrow> boneMap \<Rightarrow> clip \<Rightarrow> string \<Rightarrow> bool \<Rightarrow> clip" where
  "processClip baseFormat bones originalClip name stripPosition =
     \<lparr>clip_name = name,
      clip_tracks = processTracks baseFormat bones stripPosition (clip_tracks originalClip)\<rparr>"

subsection \<open>The legacy single-format variant\<close>

definition rootBoneKeywords_legacy :: "string list" where
  "rootBoneKeywords_legacy = [''hips'', ''root'', ''pelvis'', ''torso'', ''spine'']"

text \<open>
  The loop that zeroes X and Z of every keyframe and keeps Y, on a new array of the same
  length filled with zeros. A write past the end of a typed array is ignored, so the read
  \<^verbatim>\<open>values[i+1]\<close> counts only where the index is in range. The track is then built
  anew from the times of the old one; the library's constructor rejects a track without
  keyframes, and the old track, built by the same constructor, has at least one.
\<close>

function zeroXZ_loop :: "real list \<Rightarrow> nat \<Rightarrow> real list \<Rightarrow> real list" where
  "zeroXZ_loop values i newValues =
     (if i < length values
      then (let newValues = newValues[i := 0];
                newValues = (if i + 1 < length newValues
                             then newValues[i + 1 := values ! (i + 1)] else newValues);
                newValues = newValues[i + 2 := 0]
            in zeroXZ_loop values (i + 3) newValues)
      else newValues)"
  by pat_completeness auto
termination
  by (relation "measure (\<lambda>(values, i, newValues). length values - i)") auto

definition zeroXZ :: "real list \<Rightarrow> real list" where
  "zeroXZ values = zeroXZ_loop values 0 (replicate (length values) 0)"

definition processTrack_legacy :: "boneMap \<Rightarrow> bool \<Rightarrow> track \<Rightarrow> track option" where
  "processTrack_legacy bones stripPosition t =
     (let boneName = trackBoneName t;
          property = trackProperty t;
          simpleBoneName = simpleName_legacy boneName;
          targetBoneName = Map_get bones simpleBoneName;
          isRoot = list_ex (\<lambda>k. includes_str simpleBoneName k) rootBoneKeywords_legacy
      in if truthy targetBoneName then
           (if stripPosition \<and> isRoot \<and> property = ''position''
            then Some \<lparr>track_name = address (the targetBoneName) property,
                       track_times = track_times t,
                       track_values = zeroXZ (track_values t)\<rparr>
            else Some (t\<lparr>track_name := address (the targetBoneName) property\<rparr>))
         else None)"

fun processTracks_legacy :: "boneMap \<Rightarrow> bool \<Rightarrow> track list \<Rightarrow> track list" where
  "processTracks_legacy bones stripPosition [] = []"
| "processTracks_legacy bones stripPosition (t # ts) =
     (case processTrack_legacy bones stripPosition t of
        None \<Rightarrow> processTracks_legacy bones stripPosition ts
      | Some t' \<Rightarrow> t' # processTracks_legacy bones stripPosition ts)"

definition processClip_legacy :: "boneMap \<Rightarrow> clip \<Rightarrow> string \<Rightarrow> bool \<Rightarrow> clip" where
  "processClip_legacy bones originalClip name stripPosition =
     \<lparr>clip_name = name,
      clip_tracks = processTracks_legacy bones stripPosition (clip_tracks originalClip)\<rparr>"


section \<open>The model normalizer\<close>

text \<open>
  The scale is a piece of component state, \<^verbatim>\<open>useState<number>(0.01)\<close>. The layout effect
  measures the height \<^verbatim>\<open>size.y\<close> of the world bounding box (a computation of the
  rendering library, taken here as the argument) and sets the scale behind one guard; the
  guard and the assignment are the same in the legacy variant and on both branches (skinned
  mesh, whole hierarchy) of the dual-format variant.
\<close>

definition initialModelScale :: real where
  "initialModelScale = 0.01"

definition scaleEffect :: "real \<Rightarrow> real \<Rightarrow> real" where
  "scaleEffect modelScale size_y = (if size_y > 0.001 then 1.8 / size_y else modelScale)"

section \<open>The locomotion and animation-state controller\<close>

text \<open>
  Numbers are JavaScript doubles in the source and real numbers here: the model is the
  exact arithmetic that the source's floating point approximates, and it has no NaN and no
  infinity. The heading quaternion and the camera do not enter the position and are left out.
\<close>

datatype CharState = IDLE | WALK | RUN | DANCE

datatype vec3 = Vector3 (vx: real) (vy: real) (vz: real)

record stairConfig =
  startZ :: real
  slopeEndZ :: real
  wallZ :: real
  height :: real

subsection \<open>The state effect\<close>

text \<open>
  \<^verbatim>\<open>targetPos\<close> is a vector or \<^verbatim>\<open>null\<close>. The effect either sets the state or leaves it
  as it is, so it is a function from the four values it reads to the next state.
\<close>

definition stateEffect :: "vec3 option \<Rightarrow> bool \<Rightarrow> bool \<Rightarrow> CharState \<Rightarrow> CharState" where
  "stateEffect targetPos isRunning isCelebrating charState =
     (if isCelebrating then DANCE
      else if targetPos \<noteq> None then (if isRunning then RUN else WALK)
      else if charState \<noteq> DANCE then IDLE
      else charState)"

subsection \<open>Vector operations of the rendering library\<close>

definition lerp :: "vec3 \<Rightarrow> vec3 \<Rightarrow> real \<Rightarrow> vec3" where
  "lerp a v alpha =
     Vector3 (vx a + (vx v - vx a) * alpha) (vy a + (vy v - vy a) * alpha)
             (vz a + (vz v - vz a) * alpha)"

definition distanceTo :: "vec3 \<Rightarrow> vec3 \<Rightarrow> real" where
  "distanceTo a v =
     (let dx = vx a - vx v; dy = vy a - vy v; dz = vz a - vz v
      in sqrt (dx * dx + dy * dy + dz * dz))"

definition subVectors :: "vec3 \<Rightarrow> vec3 \<Rightarrow> vec3" where
  "subVectors a b = Vector3 (vx a - vx b) (vy a - vy b) (vz a - vz b)"

definition vec_length :: "vec3 \<Rightarrow> real" where
  "vec_length v = sqrt (vx v * vx v + vy v * vy v + vz v * vz v)"

definition multiplyScalar :: "vec3 \<Rightarrow> real \<Rightarrow> vec3" where
  "multiplyScalar v k = Vector3 (vx v * k) (vy v * k) (vz v * k)"

definition divideScalar :: "vec3 \<Rightarrow> real \<Rightarrow> vec3" where
  "divideScalar v k = multiplyScalar v (1 / k)"

text \<open>\<^verbatim>\<open>normalize\<close> divides by \<^verbatim>\<open>this.length() || 1\<close>.\<close>

definition normalize :: "vec3 \<Rightarrow> vec3" where
  "normalize v = divideScalar v (if vec_length v = 0 then 1 else vec_length v)"

definition clamp :: "real \<Rightarrow> real \<Rightarrow> real \<Rightarrow> real" where
  "clamp value lo hi = max lo (min hi value)"

subsection \<open>The frame loop\<close>

text \<open>
  The state a tick reads and writes: the position of the group (\<open>None\<close> while the group is
  not mounted, when the tick returns at once), the animation state, and the positions the
  \<^verbatim>\<open>onStop\<close> callback has been called with, oldest first.
\<close>

record sim =
  sim_position :: "vec3 option"
  sim_charState :: CharState
  sim_onStop :: "vec3 list"

text \<open>Step 3 of the tick, the height on the stairs and on the platform.\<close>

definition terrainHeight :: "stairConfig \<Rightarrow> real \<Rightarrow> real" where
  "terrainHeight stairConfig z =
     (if z < slopeEndZ stairConfig then height stairConfig
      else (let slopeLength = startZ stairConfig - slopeEndZ stairConfig;
                progress = (startZ stairConfig - z) / slopeLength;
                clampedProgress = clamp progress 0 1
            in clampedProgress * height stairConfig))"

definition moveSpeed :: "bool \<Rightarrow> real" where
  "moveSpeed isRunning = (if isRunning then 5.0 else 2.0)"

text \<open>Steps 1 and 2: the celebration override, or the movement toward the target.\<close>

definition moveStep ::
  "stairConfig \<Rightarrow> vec3 option \<Rightarrow> bool \<Rightarrow> bool \<Rightarrow> real \<Rightarrow> vec3 \<Rightarrow> sim \<Rightarrow> sim" where
  "moveStep stairConfig targetPos isRunning isCelebrating delta currentPos s =
     (if isCelebrating then
        (let centerZ = (slopeEndZ stairConfig + wallZ stairConfig) / 2;
             tempVec3 = Vector3 0 (height stairConfig) centerZ
         in s\<lparr>sim_position := Some (lerp currentPos tempVec3 (min 0.05 (delta * 0.5)))\<rparr>)
      else (case targetPos of
          None \<Rightarrow> s
        | Some target \<Rightarrow>
            (let flatTarget = Vector3 (vx target) 0 (vz target);
                 flatCurrent = Vector3 (vx currentPos) 0 (vz currentPos);
                 dist = distanceTo flatCurrent flatTarget
             in if dist < 0.2 then
                  s\<lparr>sim_onStop := sim_onStop s @ [currentPos], sim_charState := IDLE\<rparr>
                else
                  (let dir = normalize (subVectors flatTarget flatCurrent);
                       speed = moveSpeed isRunning;
                       moveDist = min (speed * delta) 0.5
                   in s\<lparr>sim_position :=
                          Some (Vector3 (vx currentPos + vx dir * moveDist) (vy currentPos)
                                        (vz currentPos + vz dir * moveDist))\<rparr>))))"

definition heightStep :: "stairConfig \<Rightarrow> bool \<Rightarrow> sim \<Rightarrow> sim" where
  "heightStep stairConfig isCelebrating s =
     (if \<not> isCelebrating then
        (case sim_position s of
           None \<Rightarrow> s
         | Some p \<Rightarrow>
             s\<lparr>sim_position := Some (Vector3 (vx p) (terrainHeight stairConfig (vz p)) (vz p))\<rparr>)
      else s)"

definition useFrame ::
  "stairConfig \<Rightarrow> vec3 option \<Rightarrow> bool \<Rightarrow> bool \<Rightarrow> real \<Rightarrow> sim \<Rightarrow> sim" where
  "useFrame stairConfig targetPos isRunning isCelebrating delta s =
     (case sim_position s of
        None \<Rightarrow> s
      | Some currentPos \<Rightarrow>
          heightStep stairConfig isCelebrating
            (moveStep stairConfig targetPos isRunning isCelebrating delta currentPos s))"

section \<open>Bone-name canonicalization\<close>

lemma toLowerCase_char_idem: "toLowerCase_char (toLowerCase_char c) = toLowerCase_char c"
  by (simp add: toLowerCase_char_def Let_def)

lemma toLowerCase_fixed:
  assumes "\<forall>c \<in> set s. toLowerCase_char c = c"
  shows "toLowerCase s = s"
  using assms by (simp add: toLowerCase_def map_idI)

lemma set_dropOptional: "set (dropOptional c s) \<subseteq> set s"
  by (cases s) (auto simp: dropOptional_def)

lemma set_removeMixamorig: "set (removeMixamorig s) \<subseteq> set s"
proof (induction s rule: removeMixamorig.induct)
  case 1
  show ?case by simp
next
  case (2 c cs)
  show ?case
  proof (cases "startsWith (c # cs) ''mixamorig''")
    case True
    have "set (dropOptional (CHR ''_'') (dropOptional (CHR '':'') (drop 9 (c # cs))))
            \<subseteq> set (drop 9 (c # cs))"
      using set_dropOptional by (meson subset_trans)
    also have "\<dots> \<subseteq> set (c # cs)" by (rule set_drop_subset)
    finally show ?thesis using 2(1)[OF True] True by auto
  next
    case False
    then show ?thesis using 2(2) by auto
  qed
qed

lemma removeMixamorig_absent:
  "\<not> includes_str s ''mixamorig'' \<Longrightarrow> removeMixamorig s = s"
  by (induction s) auto

lemma split_sep_nonempty: "split_sep s \<noteq> []"
  by (induction s) (auto split: list.splits)

lemma split_sep_no_separator:
  "\<forall>c \<in> set s. \<not> isSeparator c \<Longrightarrow> split_sep s = [s]"
  by (induction s) auto

lemma last_split_sep_set: "set (last (split_sep s)) \<subseteq> set s"
  by (induction s) (auto split: list.splits if_splits simp: split_sep_nonempty)

lemma last_split_sep_clean: "c \<in> set (last (split_sep s)) \<Longrightarrow> \<not> isSeparator c"
  by (induction s) (auto split: list.splits if_splits simp: split_sep_nonempty)

lemma normalizeBoneName_lower:
  assumes "c \<in> set (normalizeBoneName x)"
  shows "toLowerCase_char c = c"
proof -
  have "c \<in> set (toLowerCase x)"
    using assms last_split_sep_set set_removeMixamorig
    unfolding normalizeBoneName_def Let_def by blast
  then show ?thesis by (auto simp: toLowerCase_def toLowerCase_char_idem)
qed

text \<open>
  Claim C8, as stated: canonicalization is idempotent, \<open>normalize (normalize x) = normalize x\<close>
  for every string \<open>x\<close>. It fails: the vendor prefix is removed in one scan, and removing
  an occurrence can bring the two halves of another one together. The name
  \<open>mixamixamorigmorig\<close> normalizes to \<open>mixamorig\<close>, which normalizes to the empty string.
\<close>

theorem normalizeBoneName_not_idempotent:
  "normalizeBoneName ''mixamixamorigmorig'' = ''mixamorig'' \<and>
   normalizeBoneName (normalizeBoneName ''mixamixamorigmorig'') = [] \<and>
   normalizeBoneName (normalizeBoneName ''mixamixamorigmorig'')
     \<noteq> normalizeBoneName ''mixamixamorigmorig''"
  by code_simp

text \<open>
  Claim C8, amended: \<open>normalize (normalize x) = normalize x\<close> for every string \<open>x\<close> whose
  canonical key \<open>normalize x\<close> does not itself contain the vendor prefix \<open>mixamorig\<close>.
\<close>

theorem normalizeBoneName_idempotent_without_prefix:
  assumes "\<not> includes_str (normalizeBoneName x) ''mixamorig''"
  shows "normalizeBoneName (normalizeBoneName x) = normalizeBoneName x"
proof -
  let ?y = "normalizeBoneName x"
  have low: "toLowerCase ?y = ?y"
    by (rule toLowerCase_fixed) (simp add: normalizeBoneName_lower)
  have rem: "removeMixamorig ?y = ?y"
    using assms by (rule removeMixamorig_absent)
  have "\<forall>c \<in> set ?y. \<not> isSeparator c"
    unfolding normalizeBoneName_def Let_def using last_split_sep_clean by blast
  then have "split_sep ?y = [?y]" by (rule split_sep_no_separator)
  then have "last (split_sep (removeMixamorig (toLowerCase ?y))) = ?y"
    using low rem by simp
  then show ?thesis
    unfolding normalizeBoneName_def Let_def .
qed

text \<open>
  The amended C8 at the name \<open>Armature|mixamorig:LeftHand\<close>, whose key is \<open>lefthand\<close>.
\<close>

theorem normalizeBoneName_idempotent_without_prefix_witness:
  "\<not> includes_str (normalizeBoneName ''Armature|mixamorig:LeftHand'') ''mixamorig'' \<and>
   normalizeBoneName ''Armature|mixamorig:LeftHand'' = ''lefthand'' \<and>
   normalizeBoneName (normalizeBoneName ''Armature|mixamorig:LeftHand'')
     = normalizeBoneName ''Armature|mixamorig:LeftHand''"
proof -
  have h: "\<not> includes_str (normalizeBoneName ''Armature|mixamorig:LeftHand'') ''mixamorig''"
    by code_simp
  have v: "normalizeBoneName ''Armature|mixamorig:LeftHand'' = ''lefthand''"
    by code_simp
  show ?thesis
    using h v normalizeBoneName_idempotent_without_prefix [OF h] by blast
qed

section \<open>Retargeting\<close>

lemma processTracks_append:
  "processTracks fmt bones strip (xs @ ys) =
     processTracks fmt bones strip xs @ processTracks fmt bones strip ys"
  by (induction xs) (simp_all split: option.splits)

lemma processTracks_dropped:
  assumes "processTrack fmt bones strip t = None"
  shows "processTracks fmt bones strip (pre @ t # post) = processTracks fmt bones strip (pre @ post)"
  using assms by (simp add: processTracks_append)

lemma processTracks_member:
  assumes "t \<in> set ts" "processTrack fmt bones strip t = Some t'"
  shows "t' \<in> set (processTracks fmt bones strip ts)"
  using assms by (induction ts) (auto split: option.splits)

lemma processTracks_legacy_origin:
  assumes "t' \<in> set (processTracks_legacy bones strip ts)"
  shows "\<exists>t \<in> set ts. processTrack_legacy bones strip t = Some t'"
  using assms by (induction ts) (auto split: option.splits)

lemma processTrack_strips:
  assumes "truthy (findBoneFuzzy bones (normalizeBoneName (trackBoneName t)))"
    and "isRootBone fmt (normalizeBoneName (trackBoneName t))"
    and "trackProperty t = ''position''"
  shows "processTrack fmt bones True t = None"
  using assms by (simp add: processTrack_def Let_def)

lemma processTrack_legacy_unresolved:
  assumes "\<not> truthy (Map_get bones (simpleName_legacy (trackBoneName t)))"
  shows "processTrack_legacy bones strip t = None"
  using assms by (simp add: processTrack_legacy_def Let_def)

lemma processTrack_unresolved:
  assumes "\<not> truthy (findBoneFuzzy bones (normalizeBoneName (trackBoneName t)))"
    and "fmt = FBX \<or>
         \<not> (trackProperty t = ''position'' \<and>
            (includes_str (normalizeBoneName (trackBoneName t)) ''hips'' \<or>
             includes_str (normalizeBoneName (trackBoneName t)) ''root'') \<and>
            truthy (orElse (findBoneFuzzy bones ''hips'') (findBoneFuzzy bones ''root'')))"
  shows "processTrack fmt bones strip t = Some t"
  using assms by (auto simp: processTrack_def Let_def)

lemma processTracks_legacy_append:
  "processTracks_legacy bones strip (xs @ ys) =
     processTracks_legacy bones strip xs @ processTracks_legacy bones strip ys"
  by (induction xs) (simp_all split: option.splits)

text \<open>
  What the zeroing loop computes, started at a multiple of three on an array as long as the
  values: the entries before the start are untouched, and from the start on the entry at an
  index \<open>j\<close> is the old value when \<open>j mod 3 = 1\<close> (the Y of a keyframe) and zero
  otherwise (its X and Z).
\<close>

lemma zeroXZ_loop_spec:
  assumes "length newValues = length vals" and "i mod 3 = 0"
  shows "length (zeroXZ_loop vals i newValues) = length vals \<and>
         (\<forall>j < length vals. zeroXZ_loop vals i newValues ! j =
            (if j < i then newValues ! j else if j mod 3 = 1 then vals ! j else 0))"
  using assms
proof (induction vals i newValues rule: zeroXZ_loop.induct)
  case (1 vals i newValues)
  show ?case
  proof (cases "i < length vals")
    case False
    then have fin: "zeroXZ_loop vals i newValues = newValues"
      by (subst zeroXZ_loop.simps) (simp del: zeroXZ_loop.simps)
    show ?thesis
      using False "1.prems" by (simp add: fin del: zeroXZ_loop.simps)
  next
    case True
    define nv1 where "nv1 = newValues[i := 0]"
    define nv2 where "nv2 = (if i + 1 < length nv1 then nv1[i + 1 := vals ! (i + 1)] else nv1)"
    define nv3 where "nv3 = nv2[i + 2 := 0]"
    have len: "length nv3 = length vals"
      using "1.prems"(1) by (simp add: nv3_def nv2_def nv1_def)
    have step: "(i + 3) mod 3 = 0"
      using "1.prems"(2) by presburger
    have unfold: "zeroXZ_loop vals i newValues = zeroXZ_loop vals (i + 3) nv3"
      using True
      by (subst zeroXZ_loop.simps)
         (simp add: nv3_def nv2_def nv1_def Let_def del: zeroXZ_loop.simps)
    have IH: "length (zeroXZ_loop vals (i + 3) nv3) = length vals \<and>
         (\<forall>j < length vals. zeroXZ_loop vals (i + 3) nv3 ! j =
            (if j < i + 3 then nv3 ! j else if j mod 3 = 1 then vals ! j else 0))"
      using "1.IH"[OF True nv1_def nv2_def nv3_def len step] .
    have written:
      "nv3 ! j = (if j < i then newValues ! j else if j mod 3 = 1 then vals ! j else 0)"
      if jl: "j < length vals" and ji: "j < i + 3" for j
    proof -
      consider (before) "j < i" | (x) "j = i" | (y) "j = i + 1" | (z) "j = i + 2"
        using ji by linarith
      then show ?thesis
      proof cases
        case before
        then show ?thesis by (simp add: nv3_def nv2_def nv1_def)
      next
        case x
        then show ?thesis
          using jl "1.prems" by (simp add: nv3_def nv2_def nv1_def)
      next
        case y
        have "(i + 1) mod 3 = 1" using "1.prems"(2) by presburger
        then show ?thesis
          using y jl "1.prems"(1) by (simp add: nv3_def nv2_def nv1_def)
      next
        case z
        have "(i + 2) mod 3 = 2" using "1.prems"(2) by presburger
        then show ?thesis
          using z jl "1.prems"(1) by (simp add: nv3_def nv2_def nv1_def)
      qed
    qed
    show ?thesis
    proof (intro conjI allI impI)
      show "length (zeroXZ_loop vals i newValues) = length vals"
        using IH by (simp only: unfold)
    next
      fix j assume j: "j < length vals"
      have r: "zeroXZ_loop vals i newValues ! j =
            (if j < i + 3 then nv3 ! j else if j mod 3 = 1 then vals ! j else 0)"
        using IH j by (simp only: unfold)
      show "zeroXZ_loop vals i newValues ! j =
            (if j < i then newValues ! j else if j mod 3 = 1 then vals ! j else 0)"
      proof (cases "j < i + 3")
        case True
        then show ?thesis using r written[OF j True] by (simp del: zeroXZ_loop.simps)
      next
        case False
        then show ?thesis using r by (simp del: zeroXZ_loop.simps)
      qed
    qed
  qed
qed

lemma zeroXZ_spec:
  "length (zeroXZ vals) = length vals \<and>
   (\<forall>j < length vals. zeroXZ vals ! j = (if j mod 3 = 1 then vals ! j else 0))"
  using zeroXZ_loop_spec[of "replicate (length vals) 0" vals 0]
  by (simp add: zeroXZ_def del: zeroXZ_loop.simps)

lemma processTrack_legacy_zeroed:
  assumes "Map_get bones (simpleName_legacy (trackBoneName t)) = Some target" and "target \<noteq> []"
    and "list_ex (\<lambda>k. includes_str (simpleName_legacy (trackBoneName t)) k)
           rootBoneKeywords_legacy"
    and "trackProperty t = ''position''"
  shows "processTrack_legacy bones True t =
           Some \<lparr>track_name = address target ''position'', track_times = track_times t,
                 track_values = zeroXZ (track_values t)\<rparr>"
  using assms by (simp add: processTrack_legacy_def Let_def)

lemma hips_position_parts:
  "substring ''hips.position'' 0 (lastIndexOf ''hips.position'' (CHR ''.'')) = ''hips''"
  "substringFrom ''hips.position'' (lastIndexOf ''hips.position'' (CHR ''.'') + 1) = ''position''"
  "normalizeBoneName ''hips'' = ''hips''"
  "includes_str ''hips'' ''hips''"
  by code_simp+

lemma hips_position_dropped:
  assumes "track_name t = ''hips.position''" "truthy (findBoneFuzzy bones ''hips'')"
  shows "processTrack fmt bones True t = None"
proof (rule processTrack_strips)
  have bone: "normalizeBoneName (trackBoneName t) = ''hips''"
    using assms(1) hips_position_parts by (simp add: trackBoneName_def)
  show "truthy (findBoneFuzzy bones (normalizeBoneName (trackBoneName t)))"
    using assms(2) by (simp add: bone)
  show "isRootBone fmt (normalizeBoneName (trackBoneName t))"
    using hips_position_parts(4) by (simp add: bone isRootBone_def rootBoneKeywords_def)
  show "trackProperty t = ''position''"
    using assms(1) hips_position_parts by (simp add: trackProperty_def)
qed

text \<open>
  Claim C1, as stated: whenever stripping is requested, the track's bone resolves to a
  destination bone, the bone is root-class and the property is \<open>position\<close>, the retargeter
  drops the track, so that a clip containing \<open>hips.position\<close> is retargeted, for a bone map
  that takes \<open>hips\<close> to \<open>Character_Hips\<close>, to a clip with no \<open>Character_Hips.position\<close>
  track. It fails in two places, shown here on bone maps built from a skeleton. The legacy
  single-format retargeter keeps such a track: for the skeleton with the bone
  \<open>mixamorig:Hips\<close>, whose legacy key is \<open>hips\<close>, the track \<open>mixamorig:Hips.position\<close>
  resolves, is root-class, and is emitted under its destination address with X and Z set to
  zero and Y kept. And in the dual-format retargeter, for the skeleton with the bone
  \<open>Character_Hips\<close>, to which the matcher resolves \<open>hips\<close>, another track of the same clip
  comes out as \<open>Character_Hips.position\<close>: the track \<open>.position\<close> of an unnamed node has
  the empty canonical key, which the matcher resolves to the first entry of the map, and the
  empty key is not root-class.
\<close>

theorem root_position_track_kept_counterexample:
  "modelBones_legacy (Object3D ''Group'' ''Armature'' [Object3D ''Bone'' ''mixamorig:Hips'' []])
     = [(''hips'', ''mixamorig:Hips'')] \<and>
   Map_get (modelBones_legacy
              (Object3D ''Group'' ''Armature'' [Object3D ''Bone'' ''mixamorig:Hips'' []]))
       (simpleName_legacy (trackBoneName
          \<lparr>track_name = ''mixamorig:Hips.position'', track_times = [0, 1],
           track_values = [1, 2, 3, 4, 5, 6]\<rparr>))
     = Some ''mixamorig:Hips'' \<and>
   list_ex (\<lambda>k. includes_str (simpleName_legacy (trackBoneName
          \<lparr>track_name = ''mixamorig:Hips.position'', track_times = [0, 1],
           track_values = [1, 2, 3, 4, 5, 6]\<rparr>)) k) rootBoneKeywords_legacy \<and>
   clip_tracks (processClip_legacy
      (modelBones_legacy (Object3D ''Group'' ''Armature'' [Object3D ''Bone'' ''mixamorig:Hips'' []]))
      \<lparr>clip_name = ''mixamo.com'',
       clip_tracks = [\<lparr>track_name = ''mixamorig:Hips.position'', track_times = [0, 1],
                       track_values = [1, 2, 3, 4, 5, 6]\<rparr>]\<rparr> ''WALK'' True) =
     [\<lparr>track_name = ''mixamorig:Hips.position'', track_times = [0, 1],
       track_values = [0, 2, 0, 0, 5, 0]\<rparr>] \<and>
   modelBones (Object3D ''Group'' ''Armature'' [Object3D ''Bone'' ''Character_Hips'' []])
     = [(''character_hips'', ''Character_Hips'')] \<and>
   findBoneFuzzy
      (modelBones (Object3D ''Group'' ''Armature'' [Object3D ''Bone'' ''Character_Hips'' []]))
      ''hips'' = Some ''Character_Hips'' \<and>
   map track_name (clip_tracks (processClip FBX
      (modelBones (Object3D ''Group'' ''Armature'' [Object3D ''Bone'' ''Character_Hips'' []]))
      \<lparr>clip_name = ''mixamo.com'',
       clip_tracks = [\<lparr>track_name = ''hips.position'', track_times = [0, 1],
                       track_values = [1, 2, 3, 4, 5, 6]\<rparr>,
                      \<lparr>track_name = ''.position'', track_times = [0, 1],
                       track_values = [1, 2, 3, 4, 5, 6]\<rparr>]\<rparr> ''WALK'' True)) =
     [''Character_Hips.position'']"
  by code_simp

text \<open>
  Claim C1, amended. In the dual-format retargeter, with stripping requested, a track whose
  bone the fuzzy matcher resolves, whose bone is root-class (its canonical key contains
  \<open>hips\<close>, \<open>root\<close>, \<open>pelvis\<close>, \<open>torso\<close>, \<open>spine\<close> or \<open>waist\<close>, or in the GLB format
  is \<open>root\<close> or \<open>hips\<close>) and whose property is \<open>position\<close> is dropped: the retargeted
  clip is the one that the source clip without this track gives. So a clip whose only track
  is \<open>hips.position\<close> is retargeted to a clip without tracks, for every bone map in which
  the matcher resolves \<open>hips\<close>.

  In the legacy single-format retargeter the conditions are the legacy's own: the legacy
  key of the bone (its name after the last colon, in lower case) is looked up exactly in
  the bone map, and root-class means that this key contains \<open>hips\<close>, \<open>root\<close>,
  \<open>pelvis\<close>, \<open>torso\<close> or \<open>spine\<close>. A track that meets them, with the property
  \<open>position\<close>, is not dropped: in the retargeted clip it stands, between the tracks that
  come from the tracks before and after it, as the track \<open><destination bone>.position\<close>
  with the same times and as many values, in which the value at every index \<open>j\<close> with
  \<open>j mod 3 = 1\<close> (Y) is the old one and the value at every other index (X, Z) is zero.
\<close>

theorem root_position_track_stripped:
  "(truthy (findBoneFuzzy bones (normalizeBoneName (trackBoneName t))) \<and>
    isRootBone fmt (normalizeBoneName (trackBoneName t)) \<and>
    trackProperty t = ''position'' \<longrightarrow>
      clip_tracks (processClip fmt bones (c\<lparr>clip_tracks := pre @ t # post\<rparr>) name True) =
      clip_tracks (processClip fmt bones (c\<lparr>clip_tracks := pre @ post\<rparr>) name True)) \<and>
   (track_name t = ''hips.position'' \<and> truthy (findBoneFuzzy bones ''hips'') \<longrightarrow>
      clip_tracks (processClip fmt bones (c\<lparr>clip_tracks := [t]\<rparr>) name True) = []) \<and>
   (Map_get bones (simpleName_legacy (trackBoneName t)) = Some target \<and> target \<noteq> [] \<and>
    list_ex (\<lambda>k. includes_str (simpleName_legacy (trackBoneName t)) k) rootBoneKeywords_legacy \<and>
    trackProperty t = ''position'' \<longrightarrow>
      clip_tracks (processClip_legacy bones (c\<lparr>clip_tracks := pre @ t # post\<rparr>) name True) =
        clip_tracks (processClip_legacy bones (c\<lparr>clip_tracks := pre\<rparr>) name True) @
        \<lparr>track_name = address target ''position'', track_times = track_times t,
         track_values = zeroXZ (track_values t)\<rparr> #
        clip_tracks (processClip_legacy bones (c\<lparr>clip_tracks := post\<rparr>) name True) \<and>
      length (zeroXZ (track_values t)) = length (track_values t) \<and>
      (\<forall>j < length (track_values t).
         zeroXZ (track_values t) ! j = (if j mod 3 = 1 then track_values t ! j else 0))) \<and>
   rootBoneKeywords_legacy = [''hips'', ''root'', ''pelvis'', ''torso'', ''spine'']"
proof (intro conjI impI)
  assume "truthy (findBoneFuzzy bones (normalizeBoneName (trackBoneName t))) \<and>
    isRootBone fmt (normalizeBoneName (trackBoneName t)) \<and> trackProperty t = ''position''"
  then have "processTrack fmt bones True t = None"
    by (simp add: processTrack_strips)
  then show "clip_tracks (processClip fmt bones (c\<lparr>clip_tracks := pre @ t # post\<rparr>) name True) =
      clip_tracks (processClip fmt bones (c\<lparr>clip_tracks := pre @ post\<rparr>) name True)"
    by (simp add: processClip_def processTracks_dropped)
next
  assume "track_name t = ''hips.position'' \<and> truthy (findBoneFuzzy bones ''hips'')"
  then have "processTrack fmt bones True t = None"
    by (simp add: hips_position_dropped)
  then show "clip_tracks (processClip fmt bones (c\<lparr>clip_tracks := [t]\<rparr>) name True) = []"
    by (simp add: processClip_def)
next
  assume "Map_get bones (simpleName_legacy (trackBoneName t)) = Some target \<and> target \<noteq> [] \<and>
    list_ex (\<lambda>k. includes_str (simpleName_legacy (trackBoneName t)) k) rootBoneKeywords_legacy \<and>
    trackProperty t = ''position''"
  then have "processTrack_legacy bones True t =
        Some \<lparr>track_name = address target ''position'', track_times = track_times t,
              track_values = zeroXZ (track_values t)\<rparr>"
    by (simp add: processTrack_legacy_zeroed)
  then show "clip_tracks (processClip_legacy bones (c\<lparr>clip_tracks := pre @ t # post\<rparr>) name True) =
        clip_tracks (processClip_legacy bones (c\<lparr>clip_tracks := pre\<rparr>) name True) @
        \<lparr>track_name = address target ''position'', track_times = track_times t,
         track_values = zeroXZ (track_values t)\<rparr> #
        clip_tracks (processClip_legacy bones (c\<lparr>clip_tracks := post\<rparr>) name True)"
    by (simp add: processClip_legacy_def processTracks_legacy_append)
next
  show "length (zeroXZ (track_values t)) = length (track_values t)"
    using zeroXZ_spec by blast
next
  show "\<forall>j < length (track_values t).
         zeroXZ (track_values t) ! j = (if j mod 3 = 1 then track_values t ! j else 0)"
    using zeroXZ_spec by blast
next
  show "rootBoneKeywords_legacy = [''hips'', ''root'', ''pelvis'', ''torso'', ''spine'']"
    by (simp add: rootBoneKeywords_legacy_def)
qed

text \<open>
  The amended C1 on bone maps built from a skeleton. For the skeleton with the bone
  \<open>Character_Hips\<close>, the dual-format retargeter takes a clip with a rotation track and the
  track \<open>hips.position\<close> to the rotation track alone, and the clip with only
  \<open>hips.position\<close> to no track. For the skeleton with the bone \<open>mixamorig:Hips\<close>, the
  legacy retargeter takes the track \<open>mixamorig:Hips.position\<close> with two keyframes to the
  track with the values \<open>0, 2, 0, 0, 5, 0\<close>, after the rotation track.
\<close>

theorem root_position_track_stripped_witness:
  "truthy (findBoneFuzzy
      (modelBones (Object3D ''Group'' ''Armature'' [Object3D ''Bone'' ''Character_Hips'' []]))
      (normalizeBoneName (trackBoneName
        \<lparr>track_name = ''hips.position'', track_times = [0], track_values = [1, 2, 3]\<rparr>))) \<and>
   isRootBone GLB (normalizeBoneName (trackBoneName
      \<lparr>track_name = ''hips.position'', track_times = [0], track_values = [1, 2, 3]\<rparr>)) \<and>
   trackProperty \<lparr>track_name = ''hips.position'', track_times = [0], track_values = [1, 2, 3]\<rparr>
     = ''position'' \<and>
   truthy (findBoneFuzzy
      (modelBones (Object3D ''Group'' ''Armature'' [Object3D ''Bone'' ''Character_Hips'' []]))
      ''hips'') \<and>
   clip_tracks (processClip GLB
      (modelBones (Object3D ''Group'' ''Armature'' [Object3D ''Bone'' ''Character_Hips'' []]))
      \<lparr>clip_name = ''mixamo.com'',
       clip_tracks =
         [\<lparr>track_name = ''hips.quaternion'', track_times = [0], track_values = [0, 0, 0, 1]\<rparr>,
          \<lparr>track_name = ''hips.position'', track_times = [0], track_values = [1, 2, 3]\<rparr>]\<rparr>
      ''IDLE'' True) =
     [\<lparr>track_name = ''Character_Hips.quaternion'', track_times = [0],
       track_values = [0, 0, 0, 1]\<rparr>] \<and>
   clip_tracks (processClip GLB
      (modelBones (Object3D ''Group'' ''Armature'' [Object3D ''Bone'' ''Character_Hips'' []]))
      \<lparr>clip_name = ''mixamo.com'',
       clip_tracks =
         [\<lparr>track_name = ''hips.position'', track_times = [0], track_values = [1, 2, 3]\<rparr>]\<rparr>
      ''IDLE'' True) = [] \<and>
   Map_get (modelBones_legacy
              (Object3D ''Group'' ''Armature'' [Object3D ''Bone'' ''mixamorig:Hips'' []]))
       (simpleName_legacy (trackBoneName
          \<lparr>track_name = ''mixamorig:Hips.position'', track_times = [0, 1],
           track_values = [1, 2, 3, 4, 5, 6]\<rparr>))
     = Some ''mixamorig:Hips'' \<and>
   list_ex (\<lambda>k. includes_str (simpleName_legacy (trackBoneName
          \<lparr>track_name = ''mixamorig:Hips.position'', track_times = [0, 1],
           track_values = [1, 2, 3, 4, 5, 6]\<rparr>)) k) rootBoneKeywords_legacy \<and>
   trackProperty \<lparr>track_name = ''mixamorig:Hips.position'', track_times = [0, 1],
                  track_values = [1, 2, 3, 4, 5, 6]\<rparr> = ''position'' \<and>
   clip_tracks (processClip_legacy
      (modelBones_legacy (Object3D ''Group'' ''Armature'' [Object3D ''Bone'' ''mixamorig:Hips'' []]))
      \<lparr>clip_name = ''mixamo.com'',
       clip_tracks =
         [\<lparr>track_name = ''mixamorig:Hips.quaternion'', track_times = [0],
           track_values = [0, 0, 0, 1]\<rparr>,
          \<lparr>track_name = ''mixamorig:Hips.position'', track_times = [0, 1],
           track_values = [1, 2, 3, 4, 5, 6]\<rparr>]\<rparr>
      ''IDLE'' True) =
     [\<lparr>track_name = ''mixamorig:Hips.quaternion'', track_times = [0],
       track_values = [0, 0, 0, 1]\<rparr>,
      \<lparr>track_name = ''mixamorig:Hips.position'', track_times = [0, 1],
       track_values = [0, 2, 0, 0, 5, 0]\<rparr>] \<and>
   length (zeroXZ [1, 2, 3, 4, 5, 6]) = 6 \<and>
   zeroXZ [1, 2, 3, 4, 5, 6] ! 4 = 5 \<and>
   zeroXZ [1, 2, 3, 4, 5, 6] ! 5 = 0"
proof -
  let ?t = "\<lparr>track_name = ''hips.position'', track_times = [0::real],
             track_values = [1, 2, 3::real]\<rparr>"
  let ?q = "\<lparr>track_name = ''hips.quaternion'', track_times = [0::real],
             track_values = [0, 0, 0, 1::real]\<rparr>"
  let ?bones = "modelBones (Object3D ''Group'' ''Armature'' [Object3D ''Bone'' ''Character_Hips'' []])"
  let ?c = "\<lparr>clip_name = ''mixamo.com'', clip_tracks = []\<rparr>"
  let ?lt = "\<lparr>track_name = ''mixamorig:Hips.position'', track_times = [0, 1::real],
              track_values = [1, 2, 3, 4, 5, 6::real]\<rparr>"
  let ?lq = "\<lparr>track_name = ''mixamorig:Hips.quaternion'', track_times = [0::real],
              track_values = [0, 0, 0, 1::real]\<rparr>"
  let ?lbones = "modelBones_legacy
                   (Object3D ''Group'' ''Armature'' [Object3D ''Bone'' ''mixamorig:Hips'' []])"
  have h1: "truthy (findBoneFuzzy ?bones (normalizeBoneName (trackBoneName ?t)))"
    and h2: "isRootBone GLB (normalizeBoneName (trackBoneName ?t))"
    and h3: "trackProperty ?t = ''position''"
    and h4: "truthy (findBoneFuzzy ?bones ''hips'')"
    and h5: "list_ex (\<lambda>k. includes_str (simpleName_legacy (trackBoneName ?lt)) k)
               rootBoneKeywords_legacy"
    and h6: "Map_get ?lbones (simpleName_legacy (trackBoneName ?lt)) = Some ''mixamorig:Hips''"
    and h7: "trackProperty ?lt = ''position''"
    and h8: "track_name ?t = ''hips.position''"
    and h9: "''mixamorig:Hips'' \<noteq> []"
    by code_simp+
  note dual = root_position_track_stripped
    [where bones = ?bones and t = ?t and fmt = GLB and c = ?c and pre = "[?q]" and post = "[]"
       and name = "''IDLE''"]
  note legacy = root_position_track_stripped
    [where bones = ?lbones and t = ?lt and c = ?c and pre = "[?lq]" and post = "[]"
       and name = "''IDLE''" and target = "''mixamorig:Hips''"]
  have c1: "clip_tracks (processClip GLB ?bones (?c\<lparr>clip_tracks := [?q] @ ?t # []\<rparr>) ''IDLE'' True) =
      clip_tracks (processClip GLB ?bones (?c\<lparr>clip_tracks := [?q] @ []\<rparr>) ''IDLE'' True)"
    using dual h1 h2 h3 by blast
  have c2: "clip_tracks (processClip GLB ?bones (?c\<lparr>clip_tracks := [?t]\<rparr>) ''IDLE'' True) = []"
    using dual h8 h4 by blast
  have c3: "clip_tracks (processClip_legacy ?lbones (?c\<lparr>clip_tracks := [?lq] @ ?lt # []\<rparr>)
               ''IDLE'' True) =
        clip_tracks (processClip_legacy ?lbones (?c\<lparr>clip_tracks := [?lq]\<rparr>) ''IDLE'' True) @
        \<lparr>track_name = address ''mixamorig:Hips'' ''position'', track_times = track_times ?lt,
         track_values = zeroXZ (track_values ?lt)\<rparr> #
        clip_tracks (processClip_legacy ?lbones (?c\<lparr>clip_tracks := []\<rparr>) ''IDLE'' True)"
    and c4: "length (zeroXZ (track_values ?lt)) = length (track_values ?lt)"
    and c5: "\<forall>j < length (track_values ?lt).
         zeroXZ (track_values ?lt) ! j = (if j mod 3 = 1 then track_values ?lt ! j else 0)"
    using legacy h5 h6 h7 h9 by blast+
  have e1: "clip_tracks (processClip GLB ?bones (?c\<lparr>clip_tracks := [?q] @ []\<rparr>) ''IDLE'' True) =
      [\<lparr>track_name = ''Character_Hips.quaternion'', track_times = [0],
        track_values = [0, 0, 0, 1]\<rparr>]"
    by code_simp
  have e3: "address ''mixamorig:Hips'' ''position'' = ''mixamorig:Hips.position''"
    "zeroXZ [1, 2, 3, 4, 5, 6] = [0, 2, 0, 0, 5, 0]"
    "clip_tracks (processClip_legacy ?lbones (?c\<lparr>clip_tracks := [?lq]\<rparr>) ''IDLE'' True) =
       [\<lparr>track_name = ''mixamorig:Hips.quaternion'', track_times = [0],
         track_values = [0, 0, 0, 1]\<rparr>]"
    "clip_tracks (processClip_legacy ?lbones (?c\<lparr>clip_tracks := []\<rparr>) ''IDLE'' True) = []"
    by code_simp+
  have v4: "zeroXZ [1, 2, 3, 4, 5, 6::real] ! 4 = 5" and v5: "zeroXZ [1, 2, 3, 4, 5, 6::real] ! 5 = 0"
    using c5 by simp_all
  have l6: "length (zeroXZ [1, 2, 3, 4, 5, 6::real]) = 6"
    using c4 by simp
  have d1: "clip_tracks (processClip GLB ?bones
        \<lparr>clip_name = ''mixamo.com'', clip_tracks = [?q, ?t]\<rparr> ''IDLE'' True) =
      [\<lparr>track_name = ''Character_Hips.quaternion'', track_times = [0],
        track_values = [0, 0, 0, 1]\<rparr>]"
    using c1 e1 by simp
  have d2: "clip_tracks (processClip GLB ?bones
        \<lparr>clip_name = ''mixamo.com'', clip_tracks = [?t]\<rparr> ''IDLE'' True) = []"
    using c2 by simp
  have d3: "clip_tracks (processClip_legacy ?lbones
        \<lparr>clip_name = ''mixamo.com'', clip_tracks = [?lq, ?lt]\<rparr> ''IDLE'' True) =
      [\<lparr>track_name = ''mixamorig:Hips.quaternion'', track_times = [0],
        track_values = [0, 0, 0, 1]\<rparr>,
       \<lparr>track_name = ''mixamorig:Hips.position'', track_times = [0, 1],
        track_values = [0, 2, 0, 0, 5, 0]\<rparr>]"
    using c3 e3 by (simp del: zeroXZ_loop.simps)
  show ?thesis
    using h1 h2 h3 h4 h5 h6 h7 d1 d2 d3 l6 v4 v5 by blast
qed

text \<open>
  Claim C7, as stated: a track whose bone the fuzzy matcher cannot resolve, and that the
  hips/root fallback does not rescue, is dropped unless the format is GLB, so that in the
  other format no unresolved track appears in the retargeted clip. It fails for the
  dual-format retargeter in the FBX format: its last branch pushes the track as it is.
\<close>

theorem unresolved_track_fbx_counterexample:
  "\<not> truthy (findBoneFuzzy [(''hips'', ''Hips'')] (normalizeBoneName (trackBoneName
        \<lparr>track_name = ''LeftArm.quaternion'', track_times = [0], track_values = [0, 0, 0, 1]\<rparr>))) \<and>
   clip_tracks (processClip FBX [(''hips'', ''Hips'')]
      \<lparr>clip_name = ''mixamo.com'',
       clip_tracks = [\<lparr>track_name = ''LeftArm.quaternion'', track_times = [0],
                       track_values = [0, 0, 0, 1]\<rparr>]\<rparr> ''WALK'' True) =
     [\<lparr>track_name = ''LeftArm.quaternion'', track_times = [0], track_values = [0, 0, 0, 1]\<rparr>]"
  by code_simp

text \<open>
  Claim C7, amended. In the dual-format retargeter a track whose bone the fuzzy matcher
  cannot resolve is emitted unchanged in both formats, unless the format is GLB and the
  hips/root fallback rescues it (a \<open>position\<close> track whose key contains \<open>hips\<close> or
  \<open>root\<close>, when the matcher resolves \<open>hips\<close> or \<open>root\<close>). In the legacy single-format
  retargeter a track whose bone is not in the bone map is dropped, and every track of the
  retargeted clip comes from a track whose bone is in the map. The functions are total: a
  miss raises no error.
\<close>

theorem unresolved_track_passed_through:
  "(t \<in> set (clip_tracks c) \<and>
    \<not> truthy (findBoneFuzzy bones (normalizeBoneName (trackBoneName t))) \<and>
    (fmt = FBX \<or>
     \<not> (trackProperty t = ''position'' \<and>
        (includes_str (normalizeBoneName (trackBoneName t)) ''hips'' \<or>
         includes_str (normalizeBoneName (trackBoneName t)) ''root'') \<and>
        truthy (orElse (findBoneFuzzy bones ''hips'') (findBoneFuzzy bones ''root'')))) \<longrightarrow>
      t \<in> set (clip_tracks (processClip fmt bones c name strip))) \<and>
   (\<not> truthy (Map_get bones (simpleName_legacy (trackBoneName t))) \<longrightarrow>
      processTrack_legacy bones strip t = None) \<and>
   (t' \<in> set (clip_tracks (processClip_legacy bones c name strip)) \<longrightarrow>
      (\<exists>u \<in> set (clip_tracks c).
         truthy (Map_get bones (simpleName_legacy (trackBoneName u))) \<and>
         processTrack_legacy bones strip u = Some t'))"
proof (intro conjI impI)
  assume a: "t \<in> set (clip_tracks c) \<and>
    \<not> truthy (findBoneFuzzy bones (normalizeBoneName (trackBoneName t))) \<and>
    (fmt = FBX \<or>
     \<not> (trackProperty t = ''position'' \<and>
        (includes_str (normalizeBoneName (trackBoneName t)) ''hips'' \<or>
         includes_str (normalizeBoneName (trackBoneName t)) ''root'') \<and>
        truthy (orElse (findBoneFuzzy bones ''hips'') (findBoneFuzzy bones ''root''))))"
  then have "processTrack fmt bones strip t = Some t"
    using processTrack_unresolved by blast
  moreover have "t \<in> set (clip_tracks c)"
    using a by blast
  ultimately have "t \<in> set (processTracks fmt bones strip (clip_tracks c))"
    by (rule processTracks_member[rotated])
  then show "t \<in> set (clip_tracks (processClip fmt bones c name strip))"
    by (simp add: processClip_def)
next
  assume "\<not> truthy (Map_get bones (simpleName_legacy (trackBoneName t)))"
  then show "processTrack_legacy bones strip t = None"
    by (rule processTrack_legacy_unresolved)
next
  assume "t' \<in> set (clip_tracks (processClip_legacy bones c name strip))"
  then have "t' \<in> set (processTracks_legacy bones strip (clip_tracks c))"
    by (simp add: processClip_legacy_def)
  then have "\<exists>u \<in> set (clip_tracks c). processTrack_legacy bones strip u = Some t'"
    by (rule processTracks_legacy_origin)
  then obtain u where u: "u \<in> set (clip_tracks c)" "processTrack_legacy bones strip u = Some t'"
    by blast
  then have "truthy (Map_get bones (simpleName_legacy (trackBoneName u)))"
    using processTrack_legacy_unresolved by fastforce
  then show "\<exists>u \<in> set (clip_tracks c).
         truthy (Map_get bones (simpleName_legacy (trackBoneName u))) \<and>
         processTrack_legacy bones strip u = Some t'"
    using u by blast
qed

text \<open>
  The amended C7 at a clip with the tracks \<open>hips.quaternion\<close> and \<open>LeftArm.quaternion\<close>,
  for the bone map of one bone \<open>Hips\<close>: the dual-format retargeter, in the GLB format,
  passes the second track through; the legacy retargeter drops it and keeps the first.
\<close>

theorem unresolved_track_passed_through_witness:
  "\<lparr>track_name = ''LeftArm.quaternion'', track_times = [0], track_values = [0, 0, 0, 1]\<rparr>
     \<in> set (clip_tracks
         \<lparr>clip_name = ''mixamo.com'',
          clip_tracks =
            [\<lparr>track_name = ''hips.quaternion'', track_times = [0], track_values = [0, 0, 0, 1]\<rparr>,
             \<lparr>track_name = ''LeftArm.quaternion'', track_times = [0],
              track_values = [0, 0, 0, 1]\<rparr>]\<rparr>) \<and>
   \<not> truthy (findBoneFuzzy [(''hips'', ''Hips'')] (normalizeBoneName (trackBoneName
      \<lparr>track_name = ''LeftArm.quaternion'', track_times = [0], track_values = [0, 0, 0, 1]\<rparr>))) \<and>
   trackProperty
      \<lparr>track_name = ''LeftArm.quaternion'', track_times = [0], track_values = [0, 0, 0, 1]\<rparr>
     \<noteq> ''position'' \<and>
   \<lparr>track_name = ''LeftArm.quaternion'', track_times = [0], track_values = [0, 0, 0, 1]\<rparr>
     \<in> set (clip_tracks (processClip GLB [(''hips'', ''Hips'')]
         \<lparr>clip_name = ''mixamo.com'',
          clip_tracks =
            [\<lparr>track_name = ''hips.quaternion'', track_times = [0], track_values = [0, 0, 0, 1]\<rparr>,
             \<lparr>track_name = ''LeftArm.quaternion'', track_times = [0],
              track_values = [0, 0, 0, 1]\<rparr>]\<rparr> ''WALK'' True)) \<and>
   \<not> truthy (Map_get [(''hips'', ''Hips'')] (simpleName_legacy (trackBoneName
      \<lparr>track_name = ''LeftArm.quaternion'', track_times = [0], track_values = [0, 0, 0, 1]\<rparr>))) \<and>
   processTrack_legacy [(''hips'', ''Hips'')] True
      \<lparr>track_name = ''LeftArm.quaternion'', track_times = [0], track_values = [0, 0, 0, 1]\<rparr>
     = None \<and>
   \<lparr>track_name = ''Hips.quaternion'', track_times = [0], track_values = [0, 0, 0, 1]\<rparr>
     \<in> set (clip_tracks (processClip_legacy [(''hips'', ''Hips'')]
         \<lparr>clip_name = ''mixamo.com'',
          clip_tracks =
            [\<lparr>track_name = ''hips.quaternion'', track_times = [0], track_values = [0, 0, 0, 1]\<rparr>,
             \<lparr>track_name = ''LeftArm.quaternion'', track_times = [0],
              track_values = [0, 0, 0, 1]\<rparr>]\<rparr> ''WALK'' True)) \<and>
   (\<exists>u \<in> set (clip_tracks
         \<lparr>clip_name = ''mixamo.com'',
          clip_tracks =
            [\<lparr>track_name = ''hips.quaternion'', track_times = [0], track_values = [0, 0, 0, 1]\<rparr>,
             \<lparr>track_name = ''LeftArm.quaternion'', track_times = [0],
              track_values = [0, 0, 0, 1]\<rparr>]\<rparr>).
      truthy (Map_get [(''hips'', ''Hips'')] (simpleName_legacy (trackBoneName u))) \<and>
      processTrack_legacy [(''hips'', ''Hips'')] True u =
        Some \<lparr>track_name = ''Hips.quaternion'', track_times = [0],
              track_values = [0, 0, 0, 1]\<rparr>)"
proof -
  let ?h = "\<lparr>track_name = ''hips.quaternion'', track_times = [0::real],
             track_values = [0, 0, 0, 1::real]\<rparr>"
  let ?a = "\<lparr>track_name = ''LeftArm.quaternion'', track_times = [0::real],
             track_values = [0, 0, 0, 1::real]\<rparr>"
  let ?r = "\<lparr>track_name = ''Hips.quaternion'', track_times = [0::real],
             track_values = [0, 0, 0, 1::real]\<rparr>"
  let ?bones = "[(''hips'', ''Hips'')]"
  let ?c = "\<lparr>clip_name = ''mixamo.com'', clip_tracks = [?h, ?a]\<rparr>"
  have h1: "?a \<in> set (clip_tracks ?c)"
    by simp
  have h2: "\<not> truthy (findBoneFuzzy ?bones (normalizeBoneName (trackBoneName ?a)))"
    and h3: "trackProperty ?a \<noteq> ''position''"
    and h4: "\<not> truthy (Map_get ?bones (simpleName_legacy (trackBoneName ?a)))"
    by code_simp+
  have h5: "?r \<in> set (clip_tracks (processClip_legacy ?bones ?c ''WALK'' True))"
    by code_simp
  note inst = unresolved_track_passed_through
    [where t = ?a and c = ?c and bones = ?bones and fmt = GLB and name = "''WALK''"
       and strip = True and t' = ?r]
  have c1: "?a \<in> set (clip_tracks (processClip GLB ?bones ?c ''WALK'' True))"
    using inst h1 h2 h3 by blast
  have c2: "processTrack_legacy ?bones True ?a = None"
    using inst h4 by blast
  have c3: "\<exists>u \<in> set (clip_tracks ?c).
      truthy (Map_get ?bones (simpleName_legacy (trackBoneName u))) \<and>
      processTrack_legacy ?bones True u = Some ?r"
    using inst h5 by blast
  show ?thesis
    using h1 h2 h3 h4 h5 c1 c2 c3 by blast
qed

section \<open>The fuzzy bone matcher and the bone map\<close>

lemma endsWith_refl: "endsWith s s"
  by (simp add: endsWith_def startsWith_def)

text \<open>
  The loop of the matcher returns at the first entry, in the order of the map, whose stripped
  key and the stripped search key are one a suffix of the other; the test for equality that
  comes first in the body never decides anything, since equal strings are suffixes of each
  other.
\<close>

lemma findBoneFuzzy_loop_first_suffix:
  "findBoneFuzzy_loop cleanSearch entries =
     map_option snd
       (find (\<lambda>(key, val). endsWith (stripNonAlphanumeric key) cleanSearch \<or>
                            endsWith cleanSearch (stripNonAlphanumeric key)) entries)"
proof (induction entries)
  case Nil
  show ?case by simp
next
  case (Cons e entries)
  obtain key val where e: "e = (key, val)" by (cases e)
  show ?case
  proof (cases "endsWith (stripNonAlphanumeric key) cleanSearch \<or>
                endsWith cleanSearch (stripNonAlphanumeric key)")
    case True
    then show ?thesis by (simp add: e Let_def)
  next
    case False
    then have "stripNonAlphanumeric key \<noteq> cleanSearch"
      using endsWith_refl by auto
    then show ?thesis using False Cons.IH by (simp add: e Let_def)
  qed
qed

text \<open>
  Claim C2: the matcher resolves in three phases, the earlier phase always winning: the exact
  key, then stripped equality over all entries, then, only if no entry is equal after
  stripping, the first entry in a suffix relation; so a stripped-equality match on a later
  entry wins over a containment-only match on an earlier one. The source numbers the three
  attempts in this order, but tests containment inside the loop of the second attempt and
  returns there. For the skeleton with the bones \<open>Hand\<close> and \<open>Left_Hand\<close>, in this order,
  the source bone \<open>LeftHand\<close> has the search key \<open>lefthand\<close>; the later entry \<open>left_hand\<close>
  equals it after stripping, the earlier entry \<open>hand\<close> is only a suffix of it, and the
  matcher returns \<open>Hand\<close>. The example of the claim, the map with \<open>mixamorighips\<close> and
  the key \<open>hips\<close>, resolves to \<open>Hips\<close> as stated.
\<close>

theorem findBoneFuzzy_containment_before_equality:
  "modelBones (Object3D ''Object3D'' ''Armature''
       [Object3D ''Bone'' ''Hand'' [], Object3D ''Bone'' ''Left_Hand'' []])
     = [(''hand'', ''Hand''), (''left_hand'', ''Left_Hand'')] \<and>
   normalizeBoneName ''LeftHand'' = ''lefthand'' \<and>
   stripNonAlphanumeric ''left_hand'' = stripNonAlphanumeric ''lefthand'' \<and>
   stripNonAlphanumeric ''hand'' \<noteq> stripNonAlphanumeric ''lefthand'' \<and>
   findBoneFuzzy [(''hand'', ''Hand''), (''left_hand'', ''Left_Hand'')] ''lefthand''
     = Some ''Hand'' \<and>
   findBoneFuzzy [(''mixamorighips'', ''Hips'')] ''hips'' = Some ''Hips''"
  by code_simp

lemma foldl_update_lookup:
  "map_of (foldl (\<lambda>m obj. if P obj then Map_set m (f obj) (g obj) else m) m0 xs) k =
     (if filter (\<lambda>obj. P obj \<and> f obj = k) xs = [] then map_of m0 k
      else Some (g (last (filter (\<lambda>obj. P obj \<and> f obj = k) xs))))"
proof (induction xs rule: rev_induct)
  case Nil
  show ?case by simp
next
  case (snoc x xs)
  show ?case
  proof (cases "P x \<and> f x = k")
    case True
    then show ?thesis
      by (simp add: Map_set_def update_conv')
  next
    case False
    then show ?thesis using snoc.IH
      by (auto simp: Map_set_def update_conv')
  qed
qed

text \<open>
  Claim C10: the bone map is built last-wins. Each insertion overwrites an earlier entry
  for the same key, so the entry for a canonical key is the raw name of the last bone, in
  the order of the traversal, that normalizes to this key, and there is no entry when no bone
  does. The map is a function of the traversal alone. This holds for the dual-format build
  and for the legacy build, which differ in the normalizer.
\<close>

theorem modelBones_last_wins:
  "Map_get (modelBones model) key =
     (let bones = filter (\<lambda>obj. obj_type obj = ''Bone'' \<and> normalizeBoneName (obj_name obj) = key)
                    (traverse model)
      in if bones = [] then None else Some (obj_name (last bones))) \<and>
   Map_get (modelBones_legacy model) key =
     (let bones = filter (\<lambda>obj. obj_type obj = ''Bone'' \<and> simpleName_legacy (obj_name obj) = key)
                    (traverse model)
      in if bones = [] then None else Some (obj_name (last bones))) \<and>
   Map_get (Map_set m key v) key = Some v"
proof -
  have "Map_get (Map_set m key v) key = Some v"
    by (simp add: Map_get_def Map_set_def update_conv')
  then show ?thesis
    unfolding Map_get_def modelBones_def modelBones_legacy_def Let_def
    by (simp add: foldl_update_lookup)
qed

text \<open>
  C10 at a skeleton in which the bones \<open>mixamorig:Hips\<close> and, later, \<open>Armature|Hips\<close>
  have the same key \<open>hips\<close>.
\<close>

theorem modelBones_last_wins_witness:
  "Map_get (modelBones (Object3D ''Object3D'' ''Armature''
      [Object3D ''Bone'' ''mixamorig:Hips''
         [Object3D ''Bone'' ''mixamorig:Spine'' [], Object3D ''SkinnedMesh'' ''Hips'' []],
       Object3D ''Bone'' ''Armature|Hips'' []])) ''hips'' = Some ''Armature|Hips''"
proof -
  let ?model = "Object3D ''Object3D'' ''Armature''
      [Object3D ''Bone'' ''mixamorig:Hips''
         [Object3D ''Bone'' ''mixamorig:Spine'' [], Object3D ''SkinnedMesh'' ''Hips'' []],
       Object3D ''Bone'' ''Armature|Hips'' []]"
  have e: "filter (\<lambda>obj. obj_type obj = ''Bone'' \<and> normalizeBoneName (obj_name obj) = ''hips'')
             (traverse ?model)
           = [Object3D ''Bone'' ''mixamorig:Hips''
                [Object3D ''Bone'' ''mixamorig:Spine'' [], Object3D ''SkinnedMesh'' ''Hips'' []],
              Object3D ''Bone'' ''Armature|Hips'' []]"
    by code_simp
  show ?thesis
    using modelBones_last_wins [where model = ?model and key = "''hips''", THEN conjunct1]
    by (simp only: e Let_def) simp
qed

section \<open>The animation state and the model scale\<close>

text \<open>
  Claim C3: the next animation state is a function of the target point, the running flag, the
  celebrating flag and the previous state. It is Dance whenever the celebrating flag is set;
  otherwise Run with a target and the running flag, Walk with a target and without the
  flag; with no target it is Dance when the previous state is Dance and Idle for every
  other previous state. With no target, no flag and the previous state Dance it is Dance.
\<close>

theorem stateEffect_cases:
  "stateEffect targetPos isRunning True previous = DANCE \<and>
   stateEffect (Some target) True False previous = RUN \<and>
   stateEffect (Some target) False False previous = WALK \<and>
   stateEffect None isRunning False DANCE = DANCE \<and>
   stateEffect None isRunning False IDLE = IDLE \<and>
   stateEffect None isRunning False WALK = IDLE \<and>
   stateEffect None isRunning False RUN = IDLE \<and>
   stateEffect None False False DANCE = DANCE"
  by (simp add: stateEffect_def)

text \<open>
  Claim C9: the model normalizer sets the scale to \<open>1.8 / h\<close> whenever the height \<open>h\<close> of
  the world bounding box is above \<open>0.001\<close>, so that the height \<open>3.6\<close> gives the scale
  \<open>0.5\<close>, and leaves the scale as it was, initially \<open>0.01\<close>, when the height is at or
  below \<open>0.001\<close>.
\<close>

theorem scaleEffect_target_height:
  "scaleEffect modelScale 3.6 = 0.5 \<and>
   (0.001 < h \<longrightarrow> scaleEffect modelScale h = 1.8 / h) \<and>
   (h \<le> 0.001 \<longrightarrow> scaleEffect modelScale h = modelScale) \<and>
   initialModelScale = 0.01"
  by (simp add: scaleEffect_def initialModelScale_def)

text \<open>C9 at the heights \<open>0.9\<close> and \<open>0.001\<close>, from the initial scale.\<close>

theorem scaleEffect_target_height_witness:
  "(0.001::real) < 0.9 \<and> scaleEffect initialModelScale 0.9 = 2 \<and>
   (0.001::real) \<le> 0.001 \<and> scaleEffect initialModelScale 0.001 = 0.01"
proof -
  have h1: "(0.001::real) < 0.9" and h2: "(0.001::real) \<le> 0.001"
    by simp_all
  have c1: "scaleEffect initialModelScale 0.9 = 1.8 / 0.9"
    using scaleEffect_target_height [where h = "0.9" and modelScale = initialModelScale] h1
    by blast
  have c2: "scaleEffect initialModelScale 0.001 = initialModelScale"
    using scaleEffect_target_height [where h = "0.001" and modelScale = initialModelScale] h2
    by blast
  show ?thesis
    using c1 c2 by (simp add: initialModelScale_def)
qed

section \<open>The terrain height\<close>

text \<open>
  Claim C6: for a terrain with \<open>rampStartZ > rampEndZ\<close> and \<open>platformHeight \<ge> 0\<close> the
  height does not decrease as \<open>z\<close> decreases (here for any two \<open>z\<close>, on the ramp or not),
  and it is the platform height for every \<open>z \<le> rampEndZ\<close>.
\<close>

theorem terrainHeight_monotone:
  assumes "slopeEndZ cfg < startZ cfg" and "0 \<le> height cfg"
  shows "(z1 \<le> z2 \<longrightarrow> terrainHeight cfg z2 \<le> terrainHeight cfg z1) \<and>
         (z \<le> slopeEndZ cfg \<longrightarrow> terrainHeight cfg z = height cfg)"
proof -
  let ?L = "startZ cfg - slopeEndZ cfg"
  have L: "0 < ?L" using assms by simp
  have c01: "0 \<le> clamp x 0 1 \<and> clamp x 0 1 \<le> 1" for x by (simp add: clamp_def)
  have mono: "clamp x 0 1 \<le> clamp y 0 1" if "x \<le> y" for x y
    using that by (simp add: clamp_def)
  have ramp_le: "clamp x 0 1 * height cfg \<le> height cfg" for x
    using c01[of x] assms(2) by (simp add: mult_left_le_one_le)
  have A: "terrainHeight cfg z2 \<le> terrainHeight cfg z1" if "z1 \<le> z2"
  proof (cases "z2 < slopeEndZ cfg")
    case True
    then show ?thesis using that by (simp add: terrainHeight_def)
  next
    case False
    show ?thesis
    proof (cases "z1 < slopeEndZ cfg")
      case True
      then show ?thesis using False ramp_le by (simp add: terrainHeight_def Let_def)
    next
      case F1: False
      have "(startZ cfg - z2) / ?L \<le> (startZ cfg - z1) / ?L"
        using that L by (simp add: divide_right_mono)
      then have "clamp ((startZ cfg - z2) / ?L) 0 1 * height cfg
                   \<le> clamp ((startZ cfg - z1) / ?L) 0 1 * height cfg"
        using mono assms(2) by (simp add: mult_right_mono)
      then show ?thesis using False F1 by (simp add: terrainHeight_def Let_def)
    qed
  qed
  have B: "terrainHeight cfg z = height cfg" if "z \<le> slopeEndZ cfg"
  proof (cases "z < slopeEndZ cfg")
    case True
    then show ?thesis by (simp add: terrainHeight_def)
  next
    case False
    then have "z = slopeEndZ cfg" using that by simp
    then show ?thesis using L by (simp add: terrainHeight_def Let_def clamp_def)
  qed
  show ?thesis using A B by blast
qed

text \<open>
  C6 at the terrain with the ramp from \<open>z = 8\<close> to \<open>z = -4\<close> and the platform at height
  \<open>5\<close>: the heights at \<open>z = 2\<close> and \<open>z = 5\<close>, and the height at \<open>z = -6\<close>.
\<close>

theorem terrainHeight_monotone_witness:
  "slopeEndZ \<lparr>startZ = 8, slopeEndZ = - 4, wallZ = - 12, height = 5\<rparr>
     < startZ \<lparr>startZ = 8, slopeEndZ = - 4, wallZ = - 12, height = 5\<rparr> \<and>
   0 \<le> height \<lparr>startZ = 8, slopeEndZ = - 4, wallZ = - 12, height = 5\<rparr> \<and>
   (2::real) \<le> 5 \<and>
   terrainHeight \<lparr>startZ = 8, slopeEndZ = - 4, wallZ = - 12, height = 5\<rparr> 5
     \<le> terrainHeight \<lparr>startZ = 8, slopeEndZ = - 4, wallZ = - 12, height = 5\<rparr> 2 \<and>
   terrainHeight \<lparr>startZ = 8, slopeEndZ = - 4, wallZ = - 12, height = 5\<rparr> (- 6) = 5"
proof -
  let ?cfg = "\<lparr>startZ = 8, slopeEndZ = - 4, wallZ = - 12, height = 5\<rparr>"
  have h1: "slopeEndZ ?cfg < startZ ?cfg" and h2: "0 \<le> height ?cfg"
    by simp_all
  note inst = terrainHeight_monotone [OF h1 h2, where ?z1.0 = 2 and ?z2.0 = 5 and z = "- 6"]
  have "terrainHeight ?cfg 5 \<le> terrainHeight ?cfg 2"
    using inst by simp
  moreover have "terrainHeight ?cfg (- 6) = 5"
    using inst by simp
  ultimately show ?thesis
    by simp
qed

section \<open>The simulation tick\<close>

lemma moveStep_stop:
  assumes "distanceTo (Vector3 (vx p) 0 (vz p)) (Vector3 (vx tp) 0 (vz tp)) < 0.2"
  shows "moveStep cfg (Some tp) r False dt p s =
           s\<lparr>sim_onStop := sim_onStop s @ [p], sim_charState := IDLE\<rparr>"
  using assms by (simp add: moveStep_def Let_def)

lemma moveStep_go:
  assumes "\<not> distanceTo (Vector3 (vx p) 0 (vz p)) (Vector3 (vx tp) 0 (vz tp)) < 0.2"
  shows "moveStep cfg (Some tp) r False dt p s =
     s\<lparr>sim_position := Some (Vector3
        (vx p + vx (normalize (subVectors (Vector3 (vx tp) 0 (vz tp)) (Vector3 (vx p) 0 (vz p))))
                  * min (moveSpeed r * dt) 0.5)
        (vy p)
        (vz p + vz (normalize (subVectors (Vector3 (vx tp) 0 (vz tp)) (Vector3 (vx p) 0 (vz p))))
                  * min (moveSpeed r * dt) 0.5))\<rparr>"
  using assms by (simp add: moveStep_def Let_def)

lemma flat_distance:
  "distanceTo (Vector3 (vx p) 0 (vz p)) (Vector3 (vx tp) 0 (vz tp))
     = sqrt ((vx p - vx tp)\<^sup>2 + (vz p - vz tp)\<^sup>2)"
  by (simp add: distanceTo_def Let_def power2_eq_square)

lemma flat_direction:
  assumes "d = sqrt ((vx p - vx tp)\<^sup>2 + (vz p - vz tp)\<^sup>2)" "d \<noteq> 0"
  shows "vx (normalize (subVectors (Vector3 (vx tp) 0 (vz tp)) (Vector3 (vx p) 0 (vz p))))
           = (vx tp - vx p) / d"
    and "vz (normalize (subVectors (Vector3 (vx tp) 0 (vz tp)) (Vector3 (vx p) 0 (vz p))))
           = (vz tp - vz p) / d"
proof -
  have len: "vec_length (subVectors (Vector3 (vx tp) 0 (vz tp)) (Vector3 (vx p) 0 (vz p))) = d"
  proof -
    have "(vx tp - vx p) * (vx tp - vx p) = (vx p - vx tp)\<^sup>2"
      and "(vz tp - vz p) * (vz tp - vz p) = (vz p - vz tp)\<^sup>2"
      by (simp_all add: power2_eq_square algebra_simps)
    then show ?thesis
      using assms(1) by (simp add: vec_length_def subVectors_def)
  qed
  then show "vx (normalize (subVectors (Vector3 (vx tp) 0 (vz tp)) (Vector3 (vx p) 0 (vz p))))
           = (vx tp - vx p) / d"
    and "vz (normalize (subVectors (Vector3 (vx tp) 0 (vz tp)) (Vector3 (vx p) 0 (vz p))))
           = (vz tp - vz p) / d"
    using assms(2)
    by (simp_all add: normalize_def divideScalar_def multiplyScalar_def subVectors_def)
qed

lemma step_length:
  assumes "d = sqrt (a\<^sup>2 + b\<^sup>2)" "d \<noteq> 0" "0 \<le> m"
  shows "sqrt ((a / d * m)\<^sup>2 + (b / d * m)\<^sup>2) = m"
proof -
  have d2: "d\<^sup>2 = a\<^sup>2 + b\<^sup>2" using assms(1) by simp
  have "(a / d * m)\<^sup>2 + (b / d * m)\<^sup>2 = (a\<^sup>2 + b\<^sup>2) / d\<^sup>2 * m\<^sup>2"
    by (simp add: power_mult_distrib power_divide add_divide_distrib distrib_right)
  also have "\<dots> = d\<^sup>2 / d\<^sup>2 * m\<^sup>2" by (simp only: d2)
  also have "\<dots> = m\<^sup>2" using assms(2) by simp
  finally show ?thesis using assms(3) by simp
qed

text \<open>
  Claim C4: on a tick with a target and not celebrating, with \<open>d\<close> the horizontal (X and Z)
  distance from the position to the target: if \<open>d < 0.2\<close> the \<^verbatim>\<open>onStop\<close> callback is
  called with the current position, the state is set to Idle and X and Z do not change;
  otherwise X and Z advance along the unit direction to the target by
  \<open>m = min (speed * dt) 0.5\<close>, a step of length \<open>m\<close> when \<open>dt \<ge> 0\<close>, and nothing is
  reported; the speed is \<open>5\<close> when running and \<open>2\<close> otherwise.
\<close>

theorem tick_movement:
  assumes pos: "sim_position s = Some p"
  shows "let d = sqrt ((vx p - vx tp)\<^sup>2 + (vz p - vz tp)\<^sup>2);
             m = min (moveSpeed isRunning * dt) 0.5;
             s' = useFrame cfg (Some tp) isRunning False dt s
         in (d < 0.2 \<longrightarrow>
               sim_onStop s' = sim_onStop s @ [p] \<and> sim_charState s' = IDLE \<and>
               map_option vx (sim_position s') = Some (vx p) \<and>
               map_option vz (sim_position s') = Some (vz p)) \<and>
            (\<not> d < 0.2 \<longrightarrow>
               map_option vx (sim_position s') = Some (vx p + (vx tp - vx p) / d * m) \<and>
               map_option vz (sim_position s') = Some (vz p + (vz tp - vz p) / d * m) \<and>
               (0 \<le> dt \<longrightarrow>
                  sqrt (((vx tp - vx p) / d * m)\<^sup>2 + ((vz tp - vz p) / d * m)\<^sup>2) = m) \<and>
               sim_onStop s' = sim_onStop s) \<and>
            moveSpeed True = 5 \<and> moveSpeed False = 2 \<and> moveSpeed False < moveSpeed True"
proof -
  define d where "d = sqrt ((vx p - vx tp)\<^sup>2 + (vz p - vz tp)\<^sup>2)"
  define m where "m = min (moveSpeed isRunning * dt) 0.5"
  define s' where "s' = useFrame cfg (Some tp) isRunning False dt s"
  have dist: "distanceTo (Vector3 (vx p) 0 (vz p)) (Vector3 (vx tp) 0 (vz tp)) = d"
    unfolding d_def by (rule flat_distance)
  have stop: "sim_onStop s' = sim_onStop s @ [p] \<and> sim_charState s' = IDLE \<and>
               map_option vx (sim_position s') = Some (vx p) \<and>
               map_option vz (sim_position s') = Some (vz p)" if "d < 0.2"
  proof -
    have "moveStep cfg (Some tp) isRunning False dt p s =
            s\<lparr>sim_onStop := sim_onStop s @ [p], sim_charState := IDLE\<rparr>"
      using that dist by (simp add: moveStep_stop)
    then show ?thesis
      unfolding s'_def using pos by (simp add: useFrame_def heightStep_def)
  qed
  have go: "map_option vx (sim_position s') = Some (vx p + (vx tp - vx p) / d * m) \<and>
               map_option vz (sim_position s') = Some (vz p + (vz tp - vz p) / d * m) \<and>
               (0 \<le> dt \<longrightarrow>
                  sqrt (((vx tp - vx p) / d * m)\<^sup>2 + ((vz tp - vz p) / d * m)\<^sup>2) = m) \<and>
               sim_onStop s' = sim_onStop s" if far: "\<not> d < 0.2"
  proof -
    have d0: "d \<noteq> 0" using far by auto
    have dir:
      "vx (normalize (subVectors (Vector3 (vx tp) 0 (vz tp)) (Vector3 (vx p) 0 (vz p))))
         = (vx tp - vx p) / d"
      "vz (normalize (subVectors (Vector3 (vx tp) 0 (vz tp)) (Vector3 (vx p) 0 (vz p))))
         = (vz tp - vz p) / d"
      using flat_direction[OF d_def d0] by simp_all
    have ms: "moveStep cfg (Some tp) isRunning False dt p s =
       s\<lparr>sim_position := Some (Vector3 (vx p + (vx tp - vx p) / d * m) (vy p)
                                       (vz p + (vz tp - vz p) / d * m))\<rparr>"
      using far dist dir by (simp add: moveStep_go m_def)
    have A: "map_option vx (sim_position s') = Some (vx p + (vx tp - vx p) / d * m)"
      and B: "map_option vz (sim_position s') = Some (vz p + (vz tp - vz p) / d * m)"
      and C: "sim_onStop s' = sim_onStop s"
      unfolding s'_def using pos ms by (simp_all add: useFrame_def heightStep_def)
    have D: "sqrt (((vx tp - vx p) / d * m)\<^sup>2 + ((vz tp - vz p) / d * m)\<^sup>2) = m"
      if "0 \<le> dt"
    proof -
      have m0: "0 \<le> m" using that by (simp add: m_def moveSpeed_def)
      have d': "d = sqrt ((vx tp - vx p)\<^sup>2 + (vz tp - vz p)\<^sup>2)"
        unfolding d_def by (simp add: power2_commute)
      show ?thesis by (rule step_length[OF d' d0 m0])
    qed
    show ?thesis using A B C D by blast
  qed
  have sp: "moveSpeed True = 5 \<and> moveSpeed False = 2 \<and> moveSpeed False < moveSpeed True"
    by (simp add: moveSpeed_def)
  show ?thesis
    using stop go sp unfolding Let_def d_def m_def s'_def by blast
qed

text \<open>
  C4 on the ramp from \<open>z = 8\<close> to \<open>z = -4\<close>, from the position \<open>(0, 0, 8)\<close>: walking for
  half a second toward \<open>(0, 0, 7)\<close>, at distance \<open>1\<close>, advances Z by \<open>0.5\<close>; with the target
  at the position itself the tick stops.
\<close>

theorem tick_movement_witness:
  "sim_position \<lparr>sim_position = Some (Vector3 0 0 8), sim_charState = WALK, sim_onStop = []\<rparr>
     = Some (Vector3 0 0 8) \<and>
   \<not> sqrt ((vx (Vector3 0 0 8) - vx (Vector3 0 0 7))\<^sup>2
           + (vz (Vector3 0 0 8) - vz (Vector3 0 0 7))\<^sup>2) < 0.2 \<and>
   map_option vz (sim_position (useFrame \<lparr>startZ = 8, slopeEndZ = - 4, wallZ = - 12, height = 5\<rparr>
      (Some (Vector3 0 0 7)) False False (1 / 2)
      \<lparr>sim_position = Some (Vector3 0 0 8), sim_charState = WALK, sim_onStop = []\<rparr>))
     = Some (15 / 2) \<and>
   map_option vx (sim_position (useFrame \<lparr>startZ = 8, slopeEndZ = - 4, wallZ = - 12, height = 5\<rparr>
      (Some (Vector3 0 0 7)) False False (1 / 2)
      \<lparr>sim_position = Some (Vector3 0 0 8), sim_charState = WALK, sim_onStop = []\<rparr>))
     = Some 0 \<and>
   sqrt ((vx (Vector3 0 0 8) - vx (Vector3 0 0 8))\<^sup>2
         + (vz (Vector3 0 0 8) - vz (Vector3 0 0 8))\<^sup>2) < 0.2 \<and>
   sim_onStop (useFrame \<lparr>startZ = 8, slopeEndZ = - 4, wallZ = - 12, height = 5\<rparr>
      (Some (Vector3 0 0 8)) False False (1 / 2)
      \<lparr>sim_position = Some (Vector3 0 0 8), sim_charState = WALK, sim_onStop = []\<rparr>)
     = [Vector3 0 0 8] \<and>
   sim_charState (useFrame \<lparr>startZ = 8, slopeEndZ = - 4, wallZ = - 12, height = 5\<rparr>
      (Some (Vector3 0 0 8)) False False (1 / 2)
      \<lparr>sim_position = Some (Vector3 0 0 8), sim_charState = WALK, sim_onStop = []\<rparr>)
     = IDLE"
proof -
  let ?cfg = "\<lparr>startZ = 8, slopeEndZ = - 4, wallZ = - 12, height = 5\<rparr>"
  let ?s = "\<lparr>sim_position = Some (Vector3 0 0 8), sim_charState = WALK, sim_onStop = []\<rparr>"
  have h: "sim_position ?s = Some (Vector3 0 0 8)"
    by simp
  note go = tick_movement [OF h, where tp = "Vector3 0 0 7" and isRunning = False
      and dt = "1 / 2" and cfg = ?cfg]
  note stop = tick_movement [OF h, where tp = "Vector3 0 0 8" and isRunning = False
      and dt = "1 / 2" and cfg = ?cfg]
  have g: "map_option vz (sim_position (useFrame ?cfg (Some (Vector3 0 0 7)) False False (1 / 2) ?s))
             = Some (15 / 2) \<and>
           map_option vx (sim_position (useFrame ?cfg (Some (Vector3 0 0 7)) False False (1 / 2) ?s))
             = Some 0"
    using go by (simp add: Let_def moveSpeed_def)
  have st: "sim_onStop (useFrame ?cfg (Some (Vector3 0 0 8)) False False (1 / 2) ?s)
             = [Vector3 0 0 8] \<and>
            sim_charState (useFrame ?cfg (Some (Vector3 0 0 8)) False False (1 / 2) ?s) = IDLE"
    using stop by (simp add: Let_def moveSpeed_def)
  show ?thesis
    using g st by simp
qed

text \<open>
  Claim C5, as stated: at the end of every tick \<open>position.y\<close> is the terrain height at
  \<open>position.z\<close>, also while celebrating. It fails while celebrating: the tick then blends
  the position toward the centre of the platform and skips the height step. From
  \<open>(0, 0, 8)\<close> on the ramp from \<open>z = 8\<close> to \<open>z = -4\<close>, a celebrating tick of one second
  ends at \<open>(0, 1/4, 36/5)\<close>, where the terrain height is \<open>1/3\<close>.
\<close>

theorem celebrating_tick_off_terrain:
  "sim_position (useFrame \<lparr>startZ = 8, slopeEndZ = - 4, wallZ = - 12, height = 5\<rparr>
      None False True 1
      \<lparr>sim_position = Some (Vector3 0 0 8), sim_charState = DANCE, sim_onStop = []\<rparr>)
     = Some (Vector3 0 (1 / 4) (36 / 5)) \<and>
   terrainHeight \<lparr>startZ = 8, slopeEndZ = - 4, wallZ = - 12, height = 5\<rparr> (36 / 5) = 1 / 3 \<and>
   vy (Vector3 0 (1 / 4) (36 / 5))
     \<noteq> terrainHeight \<lparr>startZ = 8, slopeEndZ = - 4, wallZ = - 12, height = 5\<rparr>
         (vz (Vector3 0 (1 / 4) (36 / 5)))"
  by (simp add: useFrame_def heightStep_def moveStep_def terrainHeight_def clamp_def lerp_def)

text \<open>
  Claim C5, amended. For a terrain whose ramp has a length, \<open>rampStartZ \<noteq> rampEndZ\<close>: at
  the end of every tick executed with the celebrating flag off, \<open>position.y\<close> is the terrain
  height at \<open>position.z\<close>, whatever the target. At the end of a tick executed with the flag
  on, the position is the previous one blended toward
  \<open>(0, platformHeight, (rampEndZ + wallZ) / 2)\<close> by the factor \<open>min 0.05 (dt * 0.5)\<close>, and
  \<open>y\<close> is not taken from the terrain.
\<close>

theorem tick_height_from_terrain:
  assumes "sim_position s = Some p" and "startZ cfg \<noteq> slopeEndZ cfg"
  shows "(\<exists>p'. sim_position (useFrame cfg targetPos isRunning False dt s) = Some p' \<and>
               vy p' = terrainHeight cfg (vz p')) \<and>
         sim_position (useFrame cfg targetPos isRunning True dt s) =
           Some (lerp p (Vector3 0 (height cfg) ((slopeEndZ cfg + wallZ cfg) / 2))
                   (min 0.05 (dt * 0.5)))"
proof -
  have walk: "\<exists>p'. sim_position (useFrame cfg targetPos isRunning False dt s) = Some p' \<and>
               vy p' = terrainHeight cfg (vz p')"
    using assms(1)
    by (auto simp: useFrame_def heightStep_def moveStep_def Let_def split: option.splits)
  have dance: "sim_position (useFrame cfg targetPos isRunning True dt s) =
           Some (lerp p (Vector3 0 (height cfg) ((slopeEndZ cfg + wallZ cfg) / 2))
                   (min 0.05 (dt * 0.5)))"
    using assms(1) by (simp add: useFrame_def heightStep_def moveStep_def Let_def)
  show ?thesis using walk dance by blast
qed

text \<open>
  The amended C5 on the ramp from \<open>z = 8\<close> to \<open>z = -4\<close>, from the position \<open>(0, 0, 8)\<close>:
  walking for half a second toward \<open>(0, 0, 7)\<close> ends at \<open>(0, 5/24, 15/2)\<close>, on the
  terrain; a celebrating tick of one second ends at \<open>(0, 1/4, 36/5)\<close>.
\<close>

theorem tick_height_from_terrain_witness:
  "sim_position \<lparr>sim_position = Some (Vector3 0 0 8), sim_charState = WALK, sim_onStop = []\<rparr>
     = Some (Vector3 0 0 8) \<and>
   startZ \<lparr>startZ = 8, slopeEndZ = - 4, wallZ = - 12, height = 5\<rparr>
     \<noteq> slopeEndZ \<lparr>startZ = 8, slopeEndZ = - 4, wallZ = - 12, height = 5\<rparr> \<and>
   sim_position (useFrame \<lparr>startZ = 8, slopeEndZ = - 4, wallZ = - 12, height = 5\<rparr>
      (Some (Vector3 0 0 7)) False False (1 / 2)
      \<lparr>sim_position = Some (Vector3 0 0 8), sim_charState = WALK, sim_onStop = []\<rparr>)
     = Some (Vector3 0 (5 / 24) (15 / 2)) \<and>
   (\<exists>p'. sim_position (useFrame \<lparr>startZ = 8, slopeEndZ = - 4, wallZ = - 12, height = 5\<rparr>
      (Some (Vector3 0 0 7)) False False (1 / 2)
      \<lparr>sim_position = Some (Vector3 0 0 8), sim_charState = WALK, sim_onStop = []\<rparr>) = Some p' \<and>
      vy p' = terrainHeight \<lparr>startZ = 8, slopeEndZ = - 4, wallZ = - 12, height = 5\<rparr> (vz p')) \<and>
   sim_position (useFrame \<lparr>startZ = 8, slopeEndZ = - 4, wallZ = - 12, height = 5\<rparr>
      (Some (Vector3 0 0 7)) False True 1
      \<lparr>sim_position = Some (Vector3 0 0 8), sim_charState = WALK, sim_onStop = []\<rparr>)
     = Some (Vector3 0 (1 / 4) (36 / 5))"
proof -
  let ?cfg = "\<lparr>startZ = 8, slopeEndZ = - 4, wallZ = - 12, height = 5\<rparr>"
  let ?s = "\<lparr>sim_position = Some (Vector3 0 0 8), sim_charState = WALK, sim_onStop = []\<rparr>"
  have h1: "sim_position ?s = Some (Vector3 0 0 8)" and h2: "startZ ?cfg \<noteq> slopeEndZ ?cfg"
    by simp_all
  note walk = tick_height_from_terrain [OF h1 h2, where targetPos = "Some (Vector3 0 0 7)"
      and isRunning = False and dt = "1 / 2", THEN conjunct1]
  note dance = tick_height_from_terrain [OF h1 h2, where targetPos = "Some (Vector3 0 0 7)"
      and isRunning = False and dt = 1, THEN conjunct2]
  have e: "sim_position (useFrame ?cfg (Some (Vector3 0 0 7)) False False (1 / 2) ?s)
             = Some (Vector3 0 (5 / 24) (15 / 2))"
    by (simp add: useFrame_def heightStep_def moveStep_def terrainHeight_def clamp_def
        distanceTo_def normalize_def subVectors_def divideScalar_def multiplyScalar_def
        vec_length_def moveSpeed_def Let_def)
  have d: "sim_position (useFrame ?cfg (Some (Vector3 0 0 7)) False True 1 ?s)
             = Some (Vector3 0 (1 / 4) (36 / 5))"
    using dance by (simp add: lerp_def)
  show ?thesis
    using h1 h2 walk e d by blast
qed

end
